theory Spec2Isabelle
  imports Main
begin

section \<open>Dataset attachment state machine of the chat input (ChatInput.tsx)\<close>

text \<open>
  The component keeps its state in React hooks, refs and one browser storage key. The model
  collects them in one record and turns every handler into a function on that record. The
  backend is a black box: the answer of each endpoint is a parameter of the handler.
\<close>

subsection \<open>JavaScript strings and truthiness\<close>

text \<open>
  File names and MIME types are \<open>string\<close>s. \<open>toLowerCase\<close> is modelled on the ASCII
  letters, the only ones that can lower-case into the letters of the three extensions
  tested by the source.
\<close>

definition toLowerCase_char :: "char \<Rightarrow> char" where
  "toLowerCase_char c =
     (let n = (of_char c :: nat) in if 65 \<le> n \<and> n \<le> 90 then char_of (n + 32) else c)"

definition toLowerCase :: "string \<Rightarrow> string" where
  "toLowerCase s = map toLowerCase_char s"

definition endsWith :: "string \<Rightarrow> string \<Rightarrow> bool" where
  "endsWith s suf = (length suf \<le> length s \<and> drop (length s - length suf) s = suf)"

text \<open>\<open>str.replace(pat, '')\<close> with a string pattern: the first occurrence is removed.\<close>

fun remove_first :: "string \<Rightarrow> string \<Rightarrow> string" where
  "remove_first pat [] = []"
| "remove_first pat (c # cs) =
     (if take (length pat) (c # cs) = pat then drop (length pat) (c # cs)
      else c # remove_first pat cs)"

text \<open>\<open>name.replace(/\.(xlsx|xls)$/i, '')\<close>: a trailing Excel extension is cut off.\<close>

definition strip_excel_ext :: "string \<Rightarrow> string" where
  "strip_excel_ext n =
     (if endsWith (toLowerCase n) ''.xlsx'' then take (length n - 5) n
      else if endsWith (toLowerCase n) ''.xls'' then take (length n - 4) n
      else n)"

text \<open>
  An optional string field is \<open>None\<close> when absent (\<open>undefined\<close>, \<open>null\<close>). The empty
  string is falsy as well.
\<close>

definition truthy :: "string option \<Rightarrow> bool" where
  "truthy x = (case x of None \<Rightarrow> False | Some v \<Rightarrow> v \<noteq> [])"

text \<open>\<open>x || d\<close> for an optional string \<open>x\<close> and a string \<open>d\<close>.\<close>

definition or_else :: "string option \<Rightarrow> string \<Rightarrow> string" where
  "or_else x d = (case x of None \<Rightarrow> d | Some v \<Rightarrow> if v = [] then d else v)"

text \<open>\<open>...(sessionId && { 'X-Session-ID': sessionId })\<close>: the header is sent when truthy.\<close>

definition sid_header :: "string option \<Rightarrow> string option" where
  "sid_header x = (if truthy x then x else None)"

subsection \<open>Data model\<close>

text \<open>The browser's \<open>File\<close>: name, declared MIME type, size in bytes, modification time.\<close>

record File =
  file_name :: string
  file_type :: string
  file_size :: nat
  lastModified :: nat

datatype status = Loading | Success | Error

record FileUpload =
  fu_file :: File
  status :: status
  errorMessage :: "string option"
  isExcel :: "bool option"
  sheets :: "string list option"
  selectedSheet :: "string option"
  dataset_upload_id :: "nat option"

record FilePreview =
  headers :: "string list"
  rows :: "string list list"
  fp_name :: string
  fp_description :: string

record DatasetDescription =
  dd_name :: string
  dd_description :: string

text \<open>
  The value stored under the key \<open>lastUploadedFile\<close>. The source stores
  \<open>JSON.stringify\<close> of an object; the two writers differ in the fields they give, and an
  \<open>undefined\<close> field is left out of the JSON text (\<open>None\<close> here).
\<close>

record LocalDatasetRecord =
  ls_name :: string
  ls_type :: string
  ls_lastModified :: nat
  ls_isExcel :: "bool option"
  ls_selectedSheet :: "string option"

subsection \<open>File classification (the type check of handleFileSelect)\<close>

definition isCSVByExtension :: "File \<Rightarrow> bool" where
  "isCSVByExtension f = endsWith (toLowerCase (file_name f)) ''.csv''"

definition isCSVByType :: "File \<Rightarrow> bool" where
  "isCSVByType f = (file_type f = ''text/csv'' \<or> file_type f = ''application/csv'')"

definition isExcelByExtension :: "File \<Rightarrow> bool" where
  "isExcelByExtension f =
     (endsWith (toLowerCase (file_name f)) ''.xlsx'' \<or> endsWith (toLowerCase (file_name f)) ''.xls'')"

definition isExcelByType :: "File \<Rightarrow> bool" where
  "isExcelByType f =
     (file_type f = ''application/vnd.openxmlformats-officedocument.spreadsheetml.sheet'' \<or>
      file_type f = ''application/vnd.ms-excel'')"

text \<open>The condition of the early return with the message "Invalid file format".\<close>

definition rejected :: "File \<Rightarrow> bool" where
  "rejected f =
     (\<not> isCSVByExtension f \<and> \<not> isExcelByExtension f \<and>
      (\<not> isCSVByType f \<and> \<not> isExcelByType f \<and> file_type f \<noteq> []))"

text \<open>
  The three ways handleFileSelect goes on after its type check: the early return, the
  sheet enumeration (\<open>isExcelByExtension || isExcelByType\<close>), and the CSV flow of the
  \<open>else\<close> branch, where handleFilePreview applies a test of its own to the file.
\<close>

datatype kind = CSV | Excel | Unsupported

definition classify :: "File \<Rightarrow> kind" where
  "classify f =
     (if rejected f then Unsupported
      else if isExcelByExtension f \<or> isExcelByType f then Excel
      else CSV)"

subsection \<open>Errors and their messages (getErrorMessage)\<close>

text \<open>
  What a rejected request or a \<open>throw\<close> carries, as far as getErrorMessage looks at it.
  \<open>DetailOther\<close> is a truthy \<open>detail\<close> that is neither a string, an array nor an object,
  given by its JSON text. An array element is \<open>None\<close> when it is \<open>null\<close> or
  \<open>undefined\<close>, and is given otherwise by its \<open>msg\<close>, its \<open>message\<close> and its
  \<open>String(err)\<close>; an object entry is given by its key and the text of its value.
\<close>

record detail_item =
  item_msg :: "string option"
  item_message :: "string option"
  item_string :: string

datatype detail =
  DetailString string
| DetailArray "detail_item option list"
| DetailObject "(string \<times> string) list"
| DetailOther string

record axios_error =
  ax_status :: "nat option"
  ax_detail :: "detail option"
  ax_data_message :: "string option"
  ax_data_error :: "string option"
  ax_message :: string

datatype error = AxiosError axios_error | JsError string | Thrown

fun join :: "string \<Rightarrow> string list \<Rightarrow> string" where
  "join sep [] = []"
| "join sep [x] = x"
| "join sep (x # y # ys) = x @ sep @ join sep (y # ys)"

definition detail_truthy :: "detail option \<Rightarrow> bool" where
  "detail_truthy d = (case d of None \<Rightarrow> False | Some (DetailString t) \<Rightarrow> t \<noteq> [] | Some _ \<Rightarrow> True)"

text \<open>
  getErrorMessage throws where it reads \<open>err.msg\<close> of an array element that is \<open>null\<close>
  or \<open>undefined\<close>: the result is \<open>None\<close> then. What is thrown is a TypeError, an
  \<open>Error\<close> that is no Axios error, so the \<open>catch\<close> that receives it gets its message
  from getErrorMessage; the wording of that message is the engine's.
\<close>

definition type_error_message :: string where
  "type_error_message = ''Cannot read properties of null''"

definition detail_text :: "detail \<Rightarrow> string option" where
  "detail_text d =
     (case d of
        DetailString t \<Rightarrow> Some t
      | DetailArray xs \<Rightarrow>
          if None \<in> set xs then None
          else Some (join ''. '' (map (\<lambda>e. if truthy (item_msg e) then the (item_msg e)
                                          else or_else (item_message e) (item_string e))
                                  (map the xs)))
      | DetailObject kvs \<Rightarrow> Some (join ''. '' (map (\<lambda>(k, v). k @ '': '' @ v) kvs))
      | DetailOther t \<Rightarrow> Some t)"

definition getErrorMessage :: "error \<Rightarrow> string option" where
  "getErrorMessage e =
     (case e of
        AxiosError a \<Rightarrow>
          if ax_status a = Some 413 then Some ''File too large. Please upload a smaller file.''
          else if ax_status a = Some 415 then Some ''Invalid file type. Please upload a CSV file.''
          else if ax_status a = Some 400 \<and> detail_truthy (ax_detail a)
            then detail_text (the (ax_detail a))
          else if truthy (ax_data_message a) then ax_data_message a
          else if truthy (ax_data_error a) then ax_data_error a
          else Some (ax_message a)
      | JsError m \<Rightarrow> Some m
      | Thrown \<Rightarrow> Some ''Upload failed. Please try again.'')"

subsection \<open>The backend and the requests sent to it\<close>

record upload_response =
  up_status :: nat
  up_session_id :: "string option"
  up_dataset_upload_id :: "nat option"

record preview_response =
  pv_headers :: "string list"
  pv_rows :: "string list list"
  pv_name :: "string option"
  pv_description :: "string option"

record default_response =
  df_headers :: "string list"
  df_rows :: "string list list"
  df_name :: "string option"
  df_description :: "string option"
  df_session_id :: "string option"

record session_info =
  is_custom_dataset :: bool
  dataset_name :: "string option"
  dataset_description :: "string option"

text \<open>
  The answer of every endpoint, \<open>Inl\<close> for a rejected promise. No handler calls an endpoint
  twice, so one answer per endpoint covers every behaviour of the backend.
  \<open>session_update\<close> is the reset-session call with a name and a description in its
  body (the commit of the default dataset).
\<close>

record backend =
  reset_session :: "error + unit"
  excel_sheets :: "error + string list option"
  upload :: "error + upload_response"
  preview_csv :: "error + preview_response"
  get_session_info :: "error + session_info"
  default_dataset :: "error + default_response"
  create_dataset_description :: "error + string option"
  session_update :: "error + upload_response"

text \<open>The log of requests: endpoint, payload, and the session header (last argument).\<close>

datatype request =
  ResetSession "string option"
| ResetSessionUpdate string string "string option"
| ExcelSheets File "string option"
| UploadDataframe File string string "string option"
| UploadExcel File string string "string option" "string option"
| PreviewCsv "string option"
| SessionInfo string
| DefaultDataset "string option"
| CreateDatasetDescription string bool

datatype alert =
  SelectFileAgain
| UploadFailed error
| ProcessFailed
| PreviewDatasetFailed

subsection \<open>The state of the component\<close>

text \<open>
  What a pending \<open>setTimeout\<close> will do. The description generator of a timer is the
  closure of the render that set it: it carries that render's session id and description.
\<close>

datatype timer_action =
  ClearUploadAndNotification
| ClearNotification
| HideUploadSuccess
| GenerateDescription "string option" string
| ClickFileInput

text \<open>
  \<open>fileInput\<close> is the file list of the input element behind \<open>fileInputRef\<close> (\<open>None\<close>: the
  ref is not attached); \<open>lastUploadedFile\<close> is the storage key; \<open>timers\<close> holds the
  pending timers as (id, delay, action); \<open>net\<close>, \<open>alerts\<close> and \<open>console\<close> log the requests
  sent, the blocking alerts and the errors written to the console.
  \<open>popupShownForChatIdsRef\<close> is only ever reset to the empty set by this component and is
  left out.
\<close>

record state =
  fileUpload :: "FileUpload option"
  filePreview :: "FilePreview option"
  datasetDescription :: DatasetDescription
  showPreview :: bool
  showSheetSelector :: bool
  uploadSuccess :: bool
  sessionId :: "string option"
  showDatasetResetPopup :: bool
  datasetMismatch :: bool
  errorNotification :: "(string \<times> string) option"
  isGeneratingDescription :: bool
  errorTimeoutRef :: "nat option"
  lastUploadedFileRef :: "LocalDatasetRecord option"
  fileInput :: "File list option"
  lastUploadedFile :: "LocalDatasetRecord option"
  timers :: "(nat \<times> nat \<times> timer_action) list"
  timer_seq :: nat
  net :: "request list"
  alerts :: "alert list"
  console :: "string list"

definition setTimeout :: "timer_action \<Rightarrow> nat \<Rightarrow> state \<Rightarrow> state" where
  "setTimeout act ms s =
     s\<lparr>timers := timers s @ [(timer_seq s, ms, act)], timer_seq := Suc (timer_seq s)\<rparr>"

text \<open>\<open>errorTimeoutRef.current = setTimeout(act, ms)\<close>: the timer set before stays pending.\<close>

definition set_error_timeout :: "timer_action \<Rightarrow> nat \<Rightarrow> state \<Rightarrow> state" where
  "set_error_timeout act ms s = (setTimeout act ms s)\<lparr>errorTimeoutRef := Some (timer_seq s)\<rparr>"

text \<open>\<open>if (errorTimeoutRef.current) clearTimeout(errorTimeoutRef.current)\<close>.\<close>

definition clear_error_timeout :: "state \<Rightarrow> state" where
  "clear_error_timeout s =
     (case errorTimeoutRef s of
        None \<Rightarrow> s
      | Some t \<Rightarrow> s\<lparr>timers := filter (\<lambda>(i, ms, act). i \<noteq> t) (timers s)\<rparr>)"

definition send :: "request \<Rightarrow> state \<Rightarrow> state" where
  "send r s = s\<lparr>net := net s @ [r]\<rparr>"

definition console_error :: "string \<Rightarrow> state \<Rightarrow> state" where
  "console_error m s = s\<lparr>console := console s @ [m]\<rparr>"

definition show_alert :: "alert \<Rightarrow> state \<Rightarrow> state" where
  "show_alert a s = s\<lparr>alerts := alerts s @ [a]\<rparr>"

text \<open>\<open>setFileUpload(prev => prev ? { ...prev, ... } : null)\<close>.\<close>

definition update_fileUpload :: "(FileUpload \<Rightarrow> FileUpload) \<Rightarrow> state \<Rightarrow> state" where
  "update_fileUpload f s = s\<lparr>fileUpload := map_option f (fileUpload s)\<rparr>"

text \<open>\<open>fileInputRef.current.value = ""\<close> under \<open>if (fileInputRef.current)\<close>.\<close>

definition clear_file_input :: "state \<Rightarrow> state" where
  "clear_file_input s = s\<lparr>fileInput := map_option (\<lambda>fs. []) (fileInput s)\<rparr>"

text \<open>\<open>new File([""], name, { type, lastModified })\<close>: a file of no bytes.\<close>

definition mockFile :: "string \<Rightarrow> string \<Rightarrow> nat \<Rightarrow> File" where
  "mockFile n t m = \<lparr>file_name = n, file_type = t, file_size = 0, lastModified = m\<rparr>"

definition new_upload :: "File \<Rightarrow> status \<Rightarrow> FileUpload" where
  "new_upload f st =
     \<lparr>fu_file = f, status = st, errorMessage = None, isExcel = None, sheets = None,
      selectedSheet = None, dataset_upload_id = None\<rparr>"

definition placeholder :: string where
  "placeholder = ''Please describe what this dataset contains and its purpose''"

definition generating :: string where
  "generating = ''Generating description...''"

subsection \<open>Effects on the file upload state\<close>

text \<open>
  The effect on \<open>[fileUpload]\<close> that stores the file information: it runs after a render
  in which \<open>fileUpload\<close> changed, and writes whenever the status is \<open>success\<close>.
\<close>

definition persist_effect :: "state \<Rightarrow> state" where
  "persist_effect s =
     (case fileUpload s of
        None \<Rightarrow> s
      | Some fu \<Rightarrow>
          if status fu = Success then
            (let fileInfo = \<lparr>ls_name = file_name (fu_file fu), ls_type = file_type (fu_file fu),
                             ls_lastModified = lastModified (fu_file fu),
                             ls_isExcel = None, ls_selectedSheet = None\<rparr>
             in s\<lparr>lastUploadedFile := Some fileInfo, lastUploadedFileRef := Some fileInfo\<rparr>)
          else s)"

text \<open>The effect on \<open>[fileUpload]\<close> that restores the upload from the stored record.\<close>

definition restore_effect :: "state \<Rightarrow> state" where
  "restore_effect s =
     (if fileUpload s = None then
        (case lastUploadedFile s of
           Some fileInfo \<Rightarrow>
             if lastUploadedFileRef s \<noteq> Some fileInfo then
               s\<lparr>lastUploadedFileRef := Some fileInfo,
                 fileUpload := Some (new_upload
                   (mockFile (ls_name fileInfo) (ls_type fileInfo) (ls_lastModified fileInfo)) Success)\<rparr>
             else s
         | None \<Rightarrow>
             if lastUploadedFileRef s \<noteq> None
             then s\<lparr>lastUploadedFileRef := None, fileUpload := None\<rparr>
             else s)
      else s)"

subsection \<open>Description generation (generateDatasetDescription)\<close>

text \<open>
  The function reads \<open>sessionId\<close> and \<open>datasetDescription\<close> from the closure of the render
  that created it (\<open>sid\<close>, \<open>currentDescription\<close>); its state updates work on the state
  of the moment. It is cut at its \<open>await\<close>: \<open>during\<close> is whatever happens to the state
  while the request is in flight.
\<close>

definition set_description :: "string \<Rightarrow> state \<Rightarrow> state" where
  "set_description d s = s\<lparr>datasetDescription := (datasetDescription s)\<lparr>dd_description := d\<rparr>\<rparr>"

definition set_name :: "string \<Rightarrow> state \<Rightarrow> state" where
  "set_name n s = s\<lparr>datasetDescription := (datasetDescription s)\<lparr>dd_name := n\<rparr>\<rparr>"

definition generate_request :: "string \<Rightarrow> string \<Rightarrow> state \<Rightarrow> state" where
  "generate_request sid currentDescription s =
     (let s1 = set_description generating (s\<lparr>isGeneratingDescription := True\<rparr>);
          existingDescription = (currentDescription \<noteq> [] \<and> currentDescription \<noteq> generating \<and>
                                 currentDescription \<noteq> ''Preview dataset'')
      in send (CreateDatasetDescription sid existingDescription) s1)"

definition generate_response :: "error + string option \<Rightarrow> state \<Rightarrow> state" where
  "generate_response r s =
     (let s1 = (case r of
                  Inr d \<Rightarrow> if truthy d then set_description (the d) s else s
                | Inl e \<Rightarrow>
                    (let s2 = console_error ''Failed to generate description:'' s;
                         prev = dd_description (datasetDescription s2)
                     in set_description (if prev = generating then [] else prev) s2))
      in s1\<lparr>isGeneratingDescription := False\<rparr>)"

definition generateDatasetDescription ::
    "string option \<Rightarrow> string \<Rightarrow> backend \<Rightarrow> (state \<Rightarrow> state) \<Rightarrow> state \<Rightarrow> state" where
  "generateDatasetDescription sid currentDescription b during s =
     (if \<not> truthy sid then s
      else generate_response (create_dataset_description b)
             (during (generate_request (the sid) currentDescription s)))"

subsection \<open>Upload and preview of a CSV file (handleFilePreview)\<close>

text \<open>
  One \<open>catch\<close> block of the preview functions, for the message \<open>m\<close> that
  getErrorMessage gives it.
\<close>

definition preview_catch :: "string \<Rightarrow> string \<Rightarrow> string \<Rightarrow> state \<Rightarrow> state" where
  "preview_catch logline message m s =
     (let s1 = console_error logline s;
          s2 = s1\<lparr>errorNotification := Some (message, m)\<rparr>;
          s3 = update_fileUpload (\<lambda>prev. prev\<lparr>status := Error, errorMessage := Some m\<rparr>) s2
      in set_error_timeout ClearNotification 5000 s3)"

text \<open>
  A failed upload or preview passes through two of these blocks. The inner one rethrows the
  error into the outer one, which returns normally. When getErrorMessage throws in the
  inner block, after its log line, the outer block receives the TypeError instead.
\<close>

definition preview_failed ::
    "string \<Rightarrow> string \<Rightarrow> string \<Rightarrow> string \<Rightarrow> error \<Rightarrow> state \<Rightarrow> state" where
  "preview_failed innerLog innerMessage outerLog outerMessage e s =
     (case getErrorMessage e of
        Some m \<Rightarrow> preview_catch outerLog outerMessage m (preview_catch innerLog innerMessage m s)
      | None \<Rightarrow> preview_catch outerLog outerMessage type_error_message (console_error innerLog s))"

text \<open>The reset of the session before an upload; its failure is logged and passed over.\<close>

definition reset_before :: "string \<Rightarrow> backend \<Rightarrow> state \<Rightarrow> state" where
  "reset_before logline b s =
     (if truthy (sessionId s) then
        (let s1 = send (ResetSession (sessionId s)) s
         in case reset_session b of Inl e \<Rightarrow> console_error logline s1 | Inr u \<Rightarrow> s1)
      else s)"

text \<open>
  What follows an accepted upload in both preview functions: the preview request and the
  state it fills. \<open>failed\<close> is the pair of \<open>catch\<close> blocks of the caller.
\<close>

definition fetch_preview ::
    "string \<Rightarrow> bool \<Rightarrow> string \<Rightarrow> bool \<Rightarrow> string \<Rightarrow> (error \<Rightarrow> state \<Rightarrow> state) \<Rightarrow>
     upload_response \<Rightarrow> backend \<Rightarrow> state \<Rightarrow> state" where
  "fetch_preview tempName isNewDataset savedDescription isCustomDescription existingDescription
       failed up b s =
     (let previewSessionId = (if truthy (up_session_id up) then up_session_id up else sessionId s);
          s1 = send (PreviewCsv (sid_header previewSessionId)) s
      in case preview_csv b of
           Inl e \<Rightarrow> failed e s1
         | Inr pv \<Rightarrow>
             (let descriptionToUse =
                    (if isNewDataset then placeholder
                     else if isCustomDescription then savedDescription
                     else or_else (pv_description pv) existingDescription);
                  s2 = s1\<lparr>filePreview := Some \<lparr>headers = pv_headers pv, rows = pv_rows pv,
                                                fp_name = or_else (pv_name pv) tempName,
                                                fp_description = descriptionToUse\<rparr>,
                          datasetDescription := \<lparr>dd_name = or_else (pv_name pv) tempName,
                                                 dd_description = descriptionToUse\<rparr>,
                          showPreview := True\<rparr>;
                  s3 = (if truthy (up_session_id up)
                        then s2\<lparr>sessionId := up_session_id up\<rparr> else s2)
              in if isNewDataset \<and> (descriptionToUse = placeholder \<or> descriptionToUse = [])
                 then setTimeout (GenerateDescription (sessionId s) savedDescription) 300 s3
                 else s3))"

text \<open>
  handleFilePreview never throws: the error of the upload or of the preview is rethrown by
  the inner \<open>catch\<close> and swallowed by the outer one, and so is the TypeError of
  getErrorMessage.
\<close>

definition handleFilePreview :: "File \<Rightarrow> bool \<Rightarrow> backend \<Rightarrow> state \<Rightarrow> state" where
  "handleFilePreview f isNewDataset b s =
     (let s0 = clear_error_timeout (s\<lparr>errorNotification := None\<rparr>)
      in if file_type f = ''text/csv'' \<or> endsWith (toLowerCase (file_name f)) ''.csv'' then
           (let savedDescription = dd_description (datasetDescription s0);
                isCustomDescription = (savedDescription \<noteq> ''Preview dataset'' \<and> savedDescription \<noteq> []);
                useGuidancePlaceholder = (isNewDataset \<or> \<not> isCustomDescription);
                s1 = reset_before ''Failed to reset session before upload:'' b s0;
                existingDescription = (if useGuidancePlaceholder then placeholder else savedDescription);
                tempName = remove_first ''.csv'' (file_name f);
                s2 = send (UploadDataframe f tempName existingDescription (sid_header (sessionId s1))) s1;
                failed = preview_failed ''Upload error details:'' ''File preview failed''
                           ''Failed to preview file:'' ''File preview failed''
            in case upload b of
                 Inl e \<Rightarrow> failed e s2
               | Inr up \<Rightarrow>
                   (let s3 = (case up_dataset_upload_id up of
                                None \<Rightarrow> s2
                              | Some n \<Rightarrow> if n = 0 then s2 else
                                  update_fileUpload (\<lambda>prev. prev\<lparr>dataset_upload_id := Some n\<rparr>) s2)
                    in fetch_preview tempName isNewDataset savedDescription isCustomDescription
                         existingDescription failed up b s3))
         else
           (let s1 = s0\<lparr>errorNotification := Some (''Invalid file format'',
                        ''Please upload a CSV file. Other file formats are not supported.'')\<rparr>;
                s2 = update_fileUpload (\<lambda>prev. prev\<lparr>status := Error,
                        errorMessage := Some ''Please upload a CSV file only''\<rparr>) s1
            in set_error_timeout ClearNotification 5000 s2))"

subsection \<open>Upload and preview of an Excel sheet (handleExcelSheetPreview)\<close>

definition handleExcelSheetPreview ::
    "File \<Rightarrow> string \<Rightarrow> bool \<Rightarrow> backend \<Rightarrow> state \<Rightarrow> state" where
  "handleExcelSheetPreview f sheetName isNewDataset b s =
     (let s0 = clear_error_timeout (s\<lparr>errorNotification := None\<rparr>);
          savedDescription = dd_description (datasetDescription s0);
          isCustomDescription = (savedDescription \<noteq> ''Preview dataset'' \<and> savedDescription \<noteq> []);
          useGuidancePlaceholder = (isNewDataset \<or> \<not> isCustomDescription);
          s1 = reset_before ''Failed to reset session before Excel preview:'' b s0;
          existingDescription = (if useGuidancePlaceholder then placeholder else savedDescription);
          tempName = strip_excel_ext (file_name f) @ '' - '' @ sheetName;
          s2 = send (UploadExcel f tempName existingDescription (Some sheetName)
                       (sid_header (sessionId s1))) s1;
          failed = preview_failed ''Excel upload error details:'' ''Excel file preview failed''
                     ''Failed to preview Excel sheet:'' ''Excel sheet preview failed''
      in case upload b of
           Inl e \<Rightarrow> failed e s2
         | Inr up \<Rightarrow>
             (let s3 = (case up_dataset_upload_id up of
                          None \<Rightarrow> update_fileUpload (\<lambda>prev. prev\<lparr>selectedSheet := Some sheetName,
                                     status := Success\<rparr>) s2
                        | Some n \<Rightarrow>
                            if n = 0 then update_fileUpload (\<lambda>prev. prev\<lparr>selectedSheet := Some sheetName,
                                     status := Success\<rparr>) s2
                            else update_fileUpload (\<lambda>prev. prev\<lparr>selectedSheet := Some sheetName,
                                     dataset_upload_id := Some n, status := Success\<rparr>) s2);
                  s4 = update_fileUpload (\<lambda>prev. prev\<lparr>selectedSheet := Some sheetName,
                                     status := Success\<rparr>) s3
              in fetch_preview tempName isNewDataset savedDescription isCustomDescription
                   existingDescription failed up b s4))"

subsection \<open>Selecting a file (handleFileSelect)\<close>

text \<open>
  The \<open>catch\<close> of the sheet enumeration, for the message that getErrorMessage gives it,
  and the outer \<open>catch\<close> of handleFileSelect ("File upload failed").
\<close>

definition excel_catch :: "string \<Rightarrow> state \<Rightarrow> state" where
  "excel_catch errorMessage' s =
     (let s1 = update_fileUpload (\<lambda>prev. prev\<lparr>status := Error,
                  errorMessage := Some (''Excel error: '' @ errorMessage')\<rparr>) s;
          s2 = s1\<lparr>errorNotification := Some (''Excel processing failed'', errorMessage')\<rparr>
      in set_error_timeout ClearUploadAndNotification 5000 s2)"

definition select_catch :: "string \<Rightarrow> state \<Rightarrow> state" where
  "select_catch errorMessage' s =
     (let s1 = update_fileUpload (\<lambda>prev. prev\<lparr>status := Error,
                  errorMessage := Some errorMessage'\<rparr>) s;
          s2 = s1\<lparr>errorNotification := Some (''File upload failed'', errorMessage')\<rparr>
      in set_error_timeout ClearUploadAndNotification 5000 s2)"

text \<open>
  A failed sheet enumeration: the first statement of its \<open>catch\<close> calls getErrorMessage;
  when that throws, the TypeError goes to the outer \<open>catch\<close>.
\<close>

definition excel_failed :: "error \<Rightarrow> state \<Rightarrow> state" where
  "excel_failed e s =
     (case getErrorMessage e of
        Some m \<Rightarrow> excel_catch m s
      | None \<Rightarrow> select_catch type_error_message s)"

text \<open>
  \<open>fo\<close> is \<open>e.target.files?.[0]\<close>, the file that the input element behind
  \<open>fileInputRef\<close> holds when its change event fires. The outer \<open>catch\<close> is entered from
  the \<open>catch\<close> of the sheet enumeration only: handleFilePreview returns normally on every
  path.
\<close>

definition handleFileSelect :: "File option \<Rightarrow> backend \<Rightarrow> state \<Rightarrow> state" where
  "handleFileSelect fo b s =
     (case fo of
        None \<Rightarrow> s
      | Some f \<Rightarrow>
          (let s0 = clear_error_timeout (s\<lparr>fileInput := Some [f], errorNotification := None\<rparr>)
           in if \<not> isCSVByExtension f \<and> \<not> isExcelByExtension f \<and>
                 (\<not> isCSVByType f \<and> \<not> isExcelByType f \<and> file_type f \<noteq> []) then
                (let s1 = s0\<lparr>fileUpload := Some ((new_upload f Error)
                                 \<lparr>errorMessage := Some ''Please upload a CSV or Excel file only''\<rparr>),
                              errorNotification := Some (''Invalid file format'',
                                 ''Please upload a CSV or Excel file only. Other file formats are not supported.'')\<rparr>
                 in set_error_timeout ClearUploadAndNotification 5000 s1)
              else
                (let s1 = s0\<lparr>fileUpload := None, lastUploadedFile := None\<rparr>;
                     s2 = s1\<lparr>fileUpload := Some ((new_upload f Loading)
                                 \<lparr>isExcel := Some (isExcelByExtension f \<or> isExcelByType f)\<rparr>)\<rparr>
                 in if isExcelByExtension f \<or> isExcelByType f then
                      (let s3 = send (ExcelSheets f (sid_header (sessionId s2))) s2
                       in case excel_sheets b of
                            Inl e \<Rightarrow> excel_failed e s3
                          | Inr None \<Rightarrow> excel_failed (JsError ''No sheets found in Excel file'') s3
                          | Inr (Some []) \<Rightarrow> excel_failed (JsError ''No sheets found in Excel file'') s3
                          | Inr (Some (sh # shs)) \<Rightarrow>
                              (update_fileUpload (\<lambda>prev. prev\<lparr>sheets := Some (sh # shs),
                                   selectedSheet := Some sh, status := Success\<rparr>) s3)
                                \<lparr>showSheetSelector := True\<rparr>)
                    else
                      update_fileUpload (\<lambda>prev. prev\<lparr>status := Success\<rparr>)
                        (handleFilePreview f True b s2))))"

text \<open>
  The confirmation of the sheet (handleSheetSelectionConfirm). Its \<open>catch\<close> is never
  entered either, handleExcelSheetPreview returning normally on every path.
\<close>

definition handleSheetSelectionConfirm :: "backend \<Rightarrow> state \<Rightarrow> state" where
  "handleSheetSelectionConfirm b s =
     (case fileUpload s of
        None \<Rightarrow> s
      | Some fu \<Rightarrow>
          if truthy (selectedSheet fu) then
            (let s1 = update_fileUpload (\<lambda>prev. prev\<lparr>status := Loading\<rparr>) s;
                 s2 = handleExcelSheetPreview (fu_file fu) (the (selectedSheet fu)) True b s1;
                 s3 = update_fileUpload (\<lambda>prev. prev\<lparr>status := Success\<rparr>) s2
             in s3\<lparr>showSheetSelector := False\<rparr>)
          else s)"

text \<open>The sheet selection dialog: the choice of a sheet, its dismissal, its Cancel button.\<close>

definition sheetSelector_onValueChange :: "string \<Rightarrow> state \<Rightarrow> state" where
  "sheetSelector_onValueChange sheet s =
     update_fileUpload (\<lambda>prev. prev\<lparr>selectedSheet := Some sheet\<rparr>) s"

definition sheetSelector_onOpenChange :: "bool \<Rightarrow> state \<Rightarrow> state" where
  "sheetSelector_onOpenChange open' s =
     (if \<not> open' then
        (let s1 = (if \<not> showPreview s then s\<lparr>fileUpload := None, lastUploadedFile := None\<rparr> else s)
         in s1\<lparr>showSheetSelector := False\<rparr>)
      else s)"

definition sheetSelector_cancel :: "state \<Rightarrow> state" where
  "sheetSelector_cancel s =
     s\<lparr>showSheetSelector := False, fileUpload := None, lastUploadedFile := None\<rparr>"

text \<open>The preview dialog (Dataset Details): its dismissal.\<close>

definition preview_onOpenChange :: "bool \<Rightarrow> state \<Rightarrow> state" where
  "preview_onOpenChange open' s =
     (if \<not> open' \<and> \<not> isGeneratingDescription s then
        (let s1 = s\<lparr>showPreview := False\<rparr>
         in if map_option status (fileUpload s) \<noteq> Some Success
            then clear_file_input (s1\<lparr>fileUpload := None, lastUploadedFile := None\<rparr>)
            else s1)
      else s)"

definition clearFile :: "state \<Rightarrow> state" where
  "clearFile s = clear_file_input (s\<lparr>fileUpload := None, lastUploadedFile := None\<rparr>)"

text \<open>
  The preview button of an uploaded file. The description it would restore afterwards is
  compared with the description of the same closure, so the restoring branch is dead.
\<close>

definition preview_button :: "backend \<Rightarrow> state \<Rightarrow> state" where
  "preview_button b s =
     (case fileUpload s of
        None \<Rightarrow> s
      | Some fu \<Rightarrow>
          if isExcel fu = Some True \<and> truthy (selectedSheet fu)
          then handleExcelSheetPreview (fu_file fu) (the (selectedSheet fu)) False b s
          else handleFilePreview (fu_file fu) False b s)"

subsection \<open>The default dataset (handlePreviewDefaultDataset, handleSilentDefaultDataset)\<close>

definition load_default :: "bool \<Rightarrow> string \<Rightarrow> string \<Rightarrow> backend \<Rightarrow> state \<Rightarrow> state" where
  "load_default withPreview resetLog fetchLog b s =
     (let s1 = clear_file_input
                 (s\<lparr>fileUpload := None, lastUploadedFile := None, lastUploadedFileRef := None\<rparr>);
          s2 = send (ResetSession (sid_header (sessionId s1))) s1;
          s3 = (case reset_session b of Inl e \<Rightarrow> console_error resetLog s2 | Inr u \<Rightarrow> s2);
          s4 = send (DefaultDataset (sid_header (sessionId s3))) s3
      in case default_dataset b of
           Inl e \<Rightarrow> console_error fetchLog s4
         | Inr r \<Rightarrow>
             (let defaultDescription = or_else (df_description r)
                    ''Default housing dataset containing information about residential properties'';
                  s5 = s4\<lparr>filePreview := Some \<lparr>headers = df_headers r, rows = df_rows r,
                                                fp_name = or_else (df_name r) [],
                                                fp_description = defaultDescription\<rparr>,
                          datasetDescription := \<lparr>dd_name = or_else (df_name r) ''Dataset'',
                                                 dd_description = defaultDescription\<rparr>\<rparr>;
                  s6 = (if withPreview then s5\<lparr>showPreview := True\<rparr> else s5);
                  s7 = (if truthy (df_session_id r) then s6\<lparr>sessionId := df_session_id r\<rparr> else s6)
              in s7\<lparr>datasetMismatch := False, showDatasetResetPopup := False\<rparr>))"

definition handlePreviewDefaultDataset :: "backend \<Rightarrow> state \<Rightarrow> state" where
  "handlePreviewDefaultDataset b s =
     load_default True ''Failed to reset session for default dataset:''
       ''Failed to fetch dataset preview:'' b s"

definition handleSilentDefaultDataset :: "backend \<Rightarrow> state \<Rightarrow> state" where
  "handleSilentDefaultDataset b s =
     load_default False ''Failed to silently reset session for default dataset:''
       ''Failed to silently load default dataset:'' b s"

subsection \<open>Commit (handleUploadWithDescription)\<close>

text \<open>The success branch under \<open>response.status === 200\<close>, the same for both requests.\<close>

definition commit_accepted :: "upload_response \<Rightarrow> state \<Rightarrow> state" where
  "commit_accepted r s =
     (if up_status r = 200 then
        (let s1 = (if truthy (up_session_id r) then s\<lparr>sessionId := up_session_id r\<rparr> else s)
         in setTimeout HideUploadSuccess 3000 (s1\<lparr>showPreview := False, uploadSuccess := True\<rparr>))
      else s)"

text \<open>The outer \<open>catch\<close> of the commit.\<close>

definition commit_catch :: "state \<Rightarrow> state" where
  "commit_catch s = show_alert ProcessFailed (console_error ''Failed to process dataset:'' s)"

text \<open>
  The end of the \<open>try\<close> block, reached when no request was rejected. \<open>fu\<close> is the
  \<open>fileUpload\<close> of the closure.
\<close>

definition commit_finish :: "File option \<Rightarrow> FileUpload option \<Rightarrow> string \<Rightarrow> state \<Rightarrow> state" where
  "commit_finish actualFile fu name' s =
     (let s1 = s\<lparr>showPreview := False, uploadSuccess := True\<rparr>;
          s2 = (case actualFile of
                  None \<Rightarrow> s1
                | Some af \<Rightarrow>
                    (let isExcelFile = (Option.bind fu isExcel = Some True \<or>
                                        endsWith (toLowerCase (file_name af)) ''.xlsx'' \<or>
                                        endsWith (toLowerCase (file_name af)) ''.xls'');
                         updatedFileName = (if endsWith name' ''.csv'' then name' else name' @ ''.csv'');
                         updatedFile = \<lparr>file_name = updatedFileName, file_type = ''text/csv'',
                                        file_size = file_size af, lastModified = lastModified af\<rparr>
                     in s1\<lparr>fileUpload := Some ((new_upload updatedFile Success)
                               \<lparr>isExcel := Some isExcelFile, sheets := Option.bind fu sheets,
                                selectedSheet := Option.bind fu selectedSheet\<rparr>),
                            lastUploadedFile := Some
                               \<lparr>ls_name = updatedFileName, ls_type = ''text/csv'',
                                ls_lastModified = lastModified af, ls_isExcel = Some isExcelFile,
                                ls_selectedSheet = Option.bind fu selectedSheet\<rparr>\<rparr>))
      in setTimeout HideUploadSuccess 3000 s2)"

definition handleUploadWithDescription :: "backend \<Rightarrow> state \<Rightarrow> state" where
  "handleUploadWithDescription b s =
     (if dd_name (datasetDescription s) = [] \<or> dd_description (datasetDescription s) = [] then
        set_error_timeout ClearNotification 5000
          (s\<lparr>errorNotification := Some (''Missing information'',
                ''Please provide both a name and description for the dataset'')\<rparr>)
      else
        (let s0 = clear_error_timeout (s\<lparr>errorNotification := None\<rparr>);
             inputFiles = (case fileInput s of None \<Rightarrow> [] | Some fs \<Rightarrow> fs);
             actualFile = (case inputFiles of
                             f # fs \<Rightarrow> Some f
                           | [] \<Rightarrow> map_option fu_file (fileUpload s))
         in case actualFile of
              Some af \<Rightarrow>
                (let isMockFile = (file_size af = 0 \<and> inputFiles = [] \<and> lastModified af = 0)
                 in if isMockFile then
                      (let s1 = show_alert SelectFileAgain s0;
                           s2 = s1\<lparr>fileUpload := None, lastUploadedFile := None\<rparr>;
                           s3 = (if fileInput s2 \<noteq> None
                                 then setTimeout ClickFileInput 100 (clear_file_input s2) else s2)
                       in s3\<lparr>showPreview := False\<rparr>)
                    else
                      (let s1 = reset_before ''Failed to reset session before final upload:'' b s0;
                           finalDescription = dd_description (datasetDescription s);
                           isExcelFile = (Option.bind (fileUpload s) isExcel = Some True \<or>
                                          endsWith (toLowerCase (file_name af)) ''.xlsx'' \<or>
                                          endsWith (toLowerCase (file_name af)) ''.xls'');
                           sheet = (if isExcelFile \<and> truthy (Option.bind (fileUpload s) selectedSheet)
                                    then Option.bind (fileUpload s) selectedSheet else None);
                           s2 = send (if isExcelFile
                                      then UploadExcel af (dd_name (datasetDescription s))
                                             finalDescription sheet (sid_header (sessionId s))
                                      else UploadDataframe af (dd_name (datasetDescription s))
                                             finalDescription (sid_header (sessionId s))) s1
                       in case upload b of
                            Inl e \<Rightarrow> commit_catch (show_alert (UploadFailed e)
                                       (console_error ''Final upload error details:'' s2))
                          | Inr r \<Rightarrow> commit_finish actualFile (fileUpload s)
                                       (dd_name (datasetDescription s)) (commit_accepted r s2)))
            | None \<Rightarrow>
                (let s1 = send (ResetSessionUpdate (dd_name (datasetDescription s))
                                  (dd_description (datasetDescription s))
                                  (sid_header (sessionId s))) s0
                 in case session_update b of
                      Inl e \<Rightarrow> commit_catch s1
                    | Inr r \<Rightarrow> commit_finish actualFile (fileUpload s)
                                 (dd_name (datasetDescription s)) (commit_accepted r s1))))"

subsection \<open>Reconciliation with the session of the server\<close>

text \<open>
  checkSessionDataset runs when the session id changes. Its request goes out at once; its
  continuation runs when the answer arrives, on the state of that moment, but tests the
  \<open>fileUpload\<close> of the render that started it (\<open>shown\<close>). \<open>now\<close> is \<open>Date.now()\<close>, the
  modification time of a \<open>File\<close> built without one.
\<close>

definition checkSessionDataset_then ::
    "error + session_info \<Rightarrow> nat \<Rightarrow> FileUpload option \<Rightarrow> state \<Rightarrow> state" where
  "checkSessionDataset_then r now shown s =
     (case r of
        Inl e \<Rightarrow> console_error ''Error checking session dataset in ChatInput:'' s
      | Inr info \<Rightarrow>
          if is_custom_dataset info then
            (let customName = or_else (dataset_name info) ''Custom Dataset''
             in case lastUploadedFile s of
                  Some fileInfo \<Rightarrow>
                    if shown = None then
                      s\<lparr>fileUpload := Some (new_upload
                          (mockFile (ls_name fileInfo) (ls_type fileInfo) (ls_lastModified fileInfo))
                          Success)\<rparr>
                    else s
                | None \<Rightarrow>
                    if shown = None then
                      s\<lparr>fileUpload := Some (new_upload
                          (mockFile (customName @ ''.csv'') ''text/csv'' now) Success),
                        datasetMismatch := True\<rparr>
                    else s)
          else if map_option status shown = Some Success then
            s\<lparr>datasetMismatch := True, showDatasetResetPopup := True\<rparr>
          else s\<lparr>fileUpload := None, lastUploadedFile := None\<rparr>)"

definition checkSessionDataset :: "backend \<Rightarrow> nat \<Rightarrow> state \<Rightarrow> state" where
  "checkSessionDataset b now s =
     (if truthy (sessionId s) then
        checkSessionDataset_then (get_session_info b) now (fileUpload s)
          (send (SessionInfo (the (sessionId s))) s)
      else s)"

text \<open>
  The other effect on the session id (the chat switch handler), cut at its first request
  like checkSessionDataset; \<open>sid\<close> is the session id of the render that started it. A name
  or description missing in the preview is kept as the empty string: both are falsy
  wherever the source tests them.
\<close>

definition chat_switch_then ::
    "error + session_info \<Rightarrow> backend \<Rightarrow> nat \<Rightarrow> string option \<Rightarrow> state \<Rightarrow> state" where
  "chat_switch_then r b now sid s1 =
     (case r of
        Inl e \<Rightarrow> console_error ''Failed to get session info:'' s1
      | Inr info \<Rightarrow>
          if is_custom_dataset info then
            (case lastUploadedFile s1 of
               Some fileInfo \<Rightarrow>
                 (let s2 = s1\<lparr>fileUpload := Some (new_upload
                             (mockFile (ls_name fileInfo) (ls_type fileInfo)
                                (ls_lastModified fileInfo)) Success)\<rparr>;
                      s3 = send (PreviewCsv sid) s2
                  in case preview_csv b of
                       Inl e \<Rightarrow> console_error ''Failed to get dataset preview:'' s3
                     | Inr pv \<Rightarrow>
                         s3\<lparr>filePreview := Some \<lparr>headers = pv_headers pv, rows = pv_rows pv,
                               fp_name = or_else (pv_name pv) [],
                               fp_description = or_else (pv_description pv) []\<rparr>,
                            datasetDescription := \<lparr>dd_name = or_else (pv_name pv) [],
                               dd_description = or_else (pv_description pv) []\<rparr>\<rparr>)
             | None \<Rightarrow>
                 (let s2 = s1\<lparr>fileUpload := Some (new_upload
                             (mockFile (or_else (dataset_name info) ''Custom Dataset'' @ ''.csv'')
                                ''text/csv'' now) Success)\<rparr>
                  in if truthy (dataset_name info) \<or> truthy (dataset_description info) then
                       s2\<lparr>datasetDescription :=
                            \<lparr>dd_name = or_else (dataset_name info) ''Custom Dataset'',
                             dd_description = or_else (dataset_description info) ''Custom dataset''\<rparr>\<rparr>
                     else s2))
          else s1\<lparr>fileUpload := None, lastUploadedFile := None, lastUploadedFileRef := None\<rparr>)"

definition chat_switch_effect :: "backend \<Rightarrow> nat \<Rightarrow> state \<Rightarrow> state" where
  "chat_switch_effect b now s =
     (if truthy (sessionId s) then
        chat_switch_then (get_session_info b) b now (sessionId s)
          (send (SessionInfo (the (sessionId s))) s)
      else s)"



subsection \<open>Resolving a mismatch (handleDatasetReset)\<close>

text \<open>
  The \<open>catch\<close> around handleFilePreview is never entered. handlePreviewDefaultDataset is
  called without \<open>await\<close>; the two updates after the call commute with all it does.
\<close>

definition handleDatasetReset :: "bool \<Rightarrow> backend \<Rightarrow> state \<Rightarrow> state" where
  "handleDatasetReset keepCustomData b s =
     (case (if keepCustomData then fileUpload s else None) of
        Some fu \<Rightarrow>
          if file_size (fu_file fu) = 0 then
            (let s1 = s\<lparr>fileUpload := None, lastUploadedFile := None\<rparr>
             in if fileInput s1 \<noteq> None then
                  setTimeout ClickFileInput 100
                    ((clear_file_input s1)\<lparr>showDatasetResetPopup := False, datasetMismatch := False\<rparr>)
                else
                  s1\<lparr>showPreview := True,
                     datasetDescription := \<lparr>dd_name = remove_first ''.csv'' (file_name (fu_file fu)),
                        dd_description = ''Please provide a description for your dataset''\<rparr>,
                     showDatasetResetPopup := False, datasetMismatch := False\<rparr>)
          else
            (handleFilePreview (fu_file fu) False b s)
              \<lparr>showDatasetResetPopup := False, datasetMismatch := False\<rparr>
      | None \<Rightarrow>
          (handlePreviewDefaultDataset b (s\<lparr>fileUpload := None, lastUploadedFile := None\<rparr>))
            \<lparr>showDatasetResetPopup := False, datasetMismatch := False\<rparr>)"

subsection \<open>Timers and events\<close>

definition run_timer :: "timer_action \<Rightarrow> backend \<Rightarrow> state \<Rightarrow> state" where
  "run_timer act b s =
     (case act of
        ClearUploadAndNotification \<Rightarrow>
          s\<lparr>fileUpload := None, lastUploadedFile := None, errorNotification := None\<rparr>
      | ClearNotification \<Rightarrow> s\<lparr>errorNotification := None\<rparr>
      | HideUploadSuccess \<Rightarrow> s\<lparr>uploadSuccess := False\<rparr>
      | GenerateDescription sid d \<Rightarrow> generateDatasetDescription sid d b (\<lambda>s'. s') s
      | ClickFileInput \<Rightarrow> s)"

text \<open>The timer \<open>t\<close> goes off, if it is still pending.\<close>

definition fire :: "nat \<Rightarrow> backend \<Rightarrow> state \<Rightarrow> state" where
  "fire t b s =
     (case filter (\<lambda>(i, ms, act). i = t) (timers s) of
        [] \<Rightarrow> s
      | (i, ms, act) # rest \<Rightarrow>
          run_timer act b (s\<lparr>timers := filter (\<lambda>(i, ms, act). i \<noteq> t) (timers s)\<rparr>))"

text \<open>Every operation of the component on the dataset state, as one step function.\<close>

datatype event =
  FileSelect "File option"
| SheetChange string
| SheetConfirm
| SheetDismiss bool
| SheetCancel
| PreviewButton
| PreviewDismiss bool
| ClearFile
| EditName string
| EditDescription string
| Generate
| PreviewDefault
| SilentDefault
| Commit
| DatasetReset bool
| CheckSession
| ChatSwitch
| RestoreEffect
| PersistEffect
| Fire nat

definition step :: "backend \<Rightarrow> nat \<Rightarrow> event \<Rightarrow> state \<Rightarrow> state" where
  "step b now ev s =
     (case ev of
        FileSelect fo \<Rightarrow> handleFileSelect fo b s
      | SheetChange sheet \<Rightarrow> sheetSelector_onValueChange sheet s
      | SheetConfirm \<Rightarrow> handleSheetSelectionConfirm b s
      | SheetDismiss open' \<Rightarrow> sheetSelector_onOpenChange open' s
      | SheetCancel \<Rightarrow> sheetSelector_cancel s
      | PreviewButton \<Rightarrow> preview_button b s
      | PreviewDismiss open' \<Rightarrow> preview_onOpenChange open' s
      | ClearFile \<Rightarrow> clearFile s
      | EditName n \<Rightarrow> set_name n s
      | EditDescription d \<Rightarrow> set_description d s
      | Generate \<Rightarrow> generateDatasetDescription (sessionId s)
                      (dd_description (datasetDescription s)) b (\<lambda>s'. s') s
      | PreviewDefault \<Rightarrow> handlePreviewDefaultDataset b s
      | SilentDefault \<Rightarrow> handleSilentDefaultDataset b s
      | Commit \<Rightarrow> handleUploadWithDescription b s
      | DatasetReset keepCustomData \<Rightarrow> handleDatasetReset keepCustomData b s
      | CheckSession \<Rightarrow> checkSessionDataset b now s
      | ChatSwitch \<Rightarrow> chat_switch_effect b now s
      | RestoreEffect \<Rightarrow> restore_effect s
      | PersistEffect \<Rightarrow> persist_effect s
      | Fire t \<Rightarrow> fire t b s)"

text \<open>The state of a freshly mounted component with nothing stored.\<close>

definition init :: state where
  "init =
     \<lparr>fileUpload = None, filePreview = None,
      datasetDescription = \<lparr>dd_name = [], dd_description = []\<rparr>,
      showPreview = False, showSheetSelector = False, uploadSuccess = False,
      sessionId = None, showDatasetResetPopup = False, datasetMismatch = False,
      errorNotification = None, isGeneratingDescription = False, errorTimeoutRef = None,
      lastUploadedFileRef = None, fileInput = Some [], lastUploadedFile = None,
      timers = [], timer_seq = 1, net = [], alerts = [], console = []\<rparr>"

subsection \<open>Example inputs\<close>

definition sales_csv :: File where
  "sales_csv = \<lparr>file_name = ''sales.csv'', file_type = ''text/csv'', file_size = 10, lastModified = 1000\<rparr>"

definition book_xlsx :: File where
  "book_xlsx = \<lparr>file_name = ''book.xlsx'', file_type = [], file_size = 10, lastModified = 1000\<rparr>"

definition export_dat :: File where
  "export_dat = \<lparr>file_name = ''export.dat'', file_type = ''text/csv'', file_size = 10, lastModified = 1000\<rparr>"

definition notes_txt :: File where
  "notes_txt = \<lparr>file_name = ''notes.txt'', file_type = [], file_size = 10, lastModified = 1000\<rparr>"

definition windows_csv :: File where
  "windows_csv = \<lparr>file_name = ''sales.csv'', file_type = ''application/vnd.ms-excel'',
                   file_size = 10, lastModified = 1000\<rparr>"

definition photo_png :: File where
  "photo_png = \<lparr>file_name = ''photo.png'', file_type = ''image/png'', file_size = 10, lastModified = 1000\<rparr>"

definition empty_file :: File where
  "empty_file = \<lparr>file_name = ''empty.csv'', file_type = ''text/csv'', file_size = 0, lastModified = 0\<rparr>"

definition too_large :: error where
  "too_large = AxiosError \<lparr>ax_status = Some 413, ax_detail = None, ax_data_message = None,
                           ax_data_error = None, ax_message = ''Request failed with status code 413''\<rparr>"

text \<open>A backend that rejects every request, and one that accepts every request.\<close>

definition backend_down :: backend where
  "backend_down =
     \<lparr>reset_session = Inl too_large, excel_sheets = Inl too_large, upload = Inl too_large,
      preview_csv = Inl too_large, get_session_info = Inl too_large,
      default_dataset = Inl too_large, create_dataset_description = Inl too_large,
      session_update = Inl too_large\<rparr>"

definition backend_ok :: backend where
  "backend_ok =
     \<lparr>reset_session = Inr (),
      excel_sheets = Inr (Some [''Sheet1'', ''Sheet2'']),
      upload = Inr \<lparr>up_status = 200, up_session_id = Some ''s2'', up_dataset_upload_id = Some 7\<rparr>,
      preview_csv = Inr \<lparr>pv_headers = [''a'', ''b''], pv_rows = [[''1'', ''2'']],
                          pv_name = Some ''sales'', pv_description = None\<rparr>,
      get_session_info = Inr \<lparr>is_custom_dataset = True, dataset_name = Some ''sales'',
                               dataset_description = None\<rparr>,
      default_dataset = Inr \<lparr>df_headers = [''x''], df_rows = [[''0'']], df_name = Some ''Housing'',
                              df_description = None, df_session_id = None\<rparr>,
      create_dataset_description = Inr (Some ''Sales by quarter''),
      session_update = Inr \<lparr>up_status = 200, up_session_id = None, up_dataset_upload_id = None\<rparr>\<rparr>"

text \<open>The backend when the server reports the default dataset for the session.\<close>

definition backend_default_session :: backend where
  "backend_default_session =
     backend_ok\<lparr>get_session_info := Inr \<lparr>is_custom_dataset = False, dataset_name = None,
                                           dataset_description = None\<rparr>\<rparr>"

text \<open>A session in which \<open>sales.csv\<close> was uploaded, previewed and described.\<close>

definition after_sales :: state where
  "after_sales =
     init\<lparr>fileUpload := Some (new_upload sales_csv Success),
          filePreview := Some \<lparr>headers = [''a'', ''b''], rows = [[''1'', ''2'']],
                               fp_name = ''sales'', fp_description = ''Q1 sales''\<rparr>,
          datasetDescription := \<lparr>dd_name = ''Sales'', dd_description = ''Q1 sales''\<rparr>,
          sessionId := Some ''s1'',
          lastUploadedFile := Some \<lparr>ls_name = ''sales.csv'', ls_type = ''text/csv'',
                                    ls_lastModified = 1000, ls_isExcel = None,
                                    ls_selectedSheet = None\<rparr>\<rparr>"

text \<open>
  States in which a commit meets a file of no bytes and no modification time: held by the
  file input, and held by the file upload only.
\<close>

definition empty_file_selected :: state where
  "empty_file_selected =
     after_sales\<lparr>fileUpload := Some (new_upload empty_file Success), fileInput := Some [empty_file]\<rparr>"

definition empty_file_restored :: state where
  "empty_file_restored =
     after_sales\<lparr>fileUpload := Some (new_upload empty_file Success), fileInput := Some []\<rparr>"

subsection \<open>Updaters of the file upload\<close>

text \<open>
  Two of the functions that the handlers pass to \<open>setFileUpload\<close>, named to state what a
  handler leaves in \<open>fileUpload\<close>: the error status with its message, and the upload id of
  an accepted upload (kept when truthy). \<open>shown_message\<close> is the message that the
  \<open>catch\<close> blocks end up with for an error: that of getErrorMessage, or that of the
  TypeError it throws.
\<close>

definition shown_message :: "error \<Rightarrow> string" where
  "shown_message e = (case getErrorMessage e of Some m \<Rightarrow> m | None \<Rightarrow> type_error_message)"

definition with_error :: "string \<Rightarrow> FileUpload \<Rightarrow> FileUpload" where
  "with_error m = (\<lambda>prev. prev\<lparr>status := Error, errorMessage := Some m\<rparr>)"

definition with_upload_id :: "upload_response \<Rightarrow> FileUpload \<Rightarrow> FileUpload" where
  "with_upload_id up = (\<lambda>prev.
     (case up_dataset_upload_id up of
        None \<Rightarrow> prev
      | Some n \<Rightarrow> if n = 0 then prev else prev\<lparr>dataset_upload_id := Some n\<rparr>))"

definition legacy_dat :: File where
  "legacy_dat = \<lparr>file_name = ''legacy.dat'', file_type = ''application/csv'', file_size = 10,
                  lastModified = 1000\<rparr>"

text \<open>A session whose upload of \<open>sales.csv\<close> is still in flight, nothing stored yet.\<close>

definition uploading_sales :: state where
  "uploading_sales = init\<lparr>fileUpload := Some (new_upload sales_csv Loading), sessionId := Some ''s1''\<rparr>"

text \<open>\<open>sales.csv\<close> selected and previewed, ready for its commit.\<close>

definition sales_ready :: state where
  "sales_ready = after_sales\<lparr>fileInput := Some [sales_csv], lastUploadedFile := None\<rparr>"

section \<open>Properties\<close>

subsection \<open>Commit without a name or a description\<close>

lemma commit_refused:
  assumes "dd_name (datasetDescription s) = [] \<or> dd_description (datasetDescription s) = []"
  shows "handleUploadWithDescription b s =
           set_error_timeout ClearNotification 5000
             (s\<lparr>errorNotification := Some (''Missing information'',
                ''Please provide both a name and description for the dataset'')\<rparr>)"
  using assms by (auto simp add: handleUploadWithDescription_def)

text \<open>
  C9: a commit with an empty name or an empty description is refused with the notification
  "Missing information"; it sends no request and raises no alert, and the file upload, the
  preview, the description, the session id, the preview dialog and the stored record are
  as before.
\<close>

theorem commit_missing_metadata_refused:
  assumes "dd_name (datasetDescription s) = [] \<or> dd_description (datasetDescription s) = []"
  shows "net (handleUploadWithDescription b s) = net s \<and>
         alerts (handleUploadWithDescription b s) = alerts s \<and>
         errorNotification (handleUploadWithDescription b s) =
           Some (''Missing information'', ''Please provide both a name and description for the dataset'') \<and>
         fileUpload (handleUploadWithDescription b s) = fileUpload s \<and>
         filePreview (handleUploadWithDescription b s) = filePreview s \<and>
         datasetDescription (handleUploadWithDescription b s) = datasetDescription s \<and>
         sessionId (handleUploadWithDescription b s) = sessionId s \<and>
         showPreview (handleUploadWithDescription b s) = showPreview s \<and>
         lastUploadedFile (handleUploadWithDescription b s) = lastUploadedFile s"
  unfolding commit_refused [OF assms]
  by (simp add: set_error_timeout_def setTimeout_def)

theorem commit_missing_metadata_refused_witness:
  "net (handleUploadWithDescription backend_ok
          (after_sales\<lparr>datasetDescription := \<lparr>dd_name = ''Sales'', dd_description = []\<rparr>\<rparr>)) = [] \<and>
   lastUploadedFile (handleUploadWithDescription backend_ok
          (after_sales\<lparr>datasetDescription := \<lparr>dd_name = ''Sales'', dd_description = []\<rparr>\<rparr>)) =
     lastUploadedFile after_sales"
proof -
  let ?s = "after_sales\<lparr>datasetDescription := \<lparr>dd_name = ''Sales'', dd_description = []\<rparr>\<rparr>"
  have h: "dd_name (datasetDescription ?s) = [] \<or> dd_description (datasetDescription ?s) = []"
    by simp
  have n: "net ?s = []" and l: "lastUploadedFile ?s = lastUploadedFile after_sales"
    by (simp_all add: after_sales_def init_def)
  from commit_missing_metadata_refused [OF h, of backend_ok] n l show ?thesis by simp
qed

subsection \<open>Cancelling the sheet selection\<close>

text \<open>
  C10: dismissing the sheet selection dialog while no preview is open, or pressing its
  Cancel button, unsets the file upload, removes the stored record and closes the dialog;
  the effects that run on the changed file upload leave both unset.
\<close>

theorem sheet_selection_cancel_clears:
  "(\<not> showPreview s \<longrightarrow>
      fileUpload (sheetSelector_onOpenChange False s) = None \<and>
      lastUploadedFile (sheetSelector_onOpenChange False s) = None \<and>
      showSheetSelector (sheetSelector_onOpenChange False s) = False \<and>
      fileUpload (persist_effect (restore_effect (sheetSelector_onOpenChange False s))) = None \<and>
      lastUploadedFile (persist_effect (restore_effect (sheetSelector_onOpenChange False s))) = None) \<and>
   fileUpload (sheetSelector_cancel s) = None \<and>
   lastUploadedFile (sheetSelector_cancel s) = None \<and>
   showSheetSelector (sheetSelector_cancel s) = False \<and>
   fileUpload (persist_effect (restore_effect (sheetSelector_cancel s))) = None \<and>
   lastUploadedFile (persist_effect (restore_effect (sheetSelector_cancel s))) = None"
  by (simp add: sheetSelector_onOpenChange_def sheetSelector_cancel_def restore_effect_def
      persist_effect_def)

theorem sheet_selection_cancel_clears_witness:
  "fileUpload (handleFileSelect (Some book_xlsx) backend_ok init) \<noteq> None \<and>
   fileUpload (sheetSelector_onOpenChange False
                 (handleFileSelect (Some book_xlsx) backend_ok init)) = None \<and>
   lastUploadedFile (sheetSelector_onOpenChange False
                 (persist_effect (handleFileSelect (Some book_xlsx) backend_ok init))) = None \<and>
   fileUpload (sheetSelector_cancel (handleFileSelect (Some book_xlsx) backend_ok init)) = None"
proof -
  let ?s = "handleFileSelect (Some book_xlsx) backend_ok init"
  have a: "fileUpload ?s \<noteq> None" by code_simp
  have h: "\<not> showPreview ?s" by code_simp
  have h': "\<not> showPreview (persist_effect ?s)" by code_simp
  from sheet_selection_cancel_clears [of ?s] h
    sheet_selection_cancel_clears [of "persist_effect ?s"] h' a
  show ?thesis by blast
qed

subsection \<open>Failure of the description generation\<close>

text \<open>
  C8: when the generation request fails, the description becomes the empty string exactly
  when it holds the sentinel "Generating description..." at that moment, and is kept
  otherwise. So with nothing happening during the request the description ends empty, and
  a text other than the sentinel that was entered during the request is kept.
\<close>

theorem generation_failure_reverts_sentinel_only:
  assumes "truthy sid" and "create_dataset_description b = Inl e"
  shows "dd_description (datasetDescription (generateDatasetDescription sid cur b during s)) =
           (if dd_description (datasetDescription (during (generate_request (the sid) cur s))) = generating
            then []
            else dd_description (datasetDescription (during (generate_request (the sid) cur s)))) \<and>
         dd_description (datasetDescription (generateDatasetDescription sid cur b (\<lambda>s'. s') s)) = [] \<and>
         (txt \<noteq> generating \<longrightarrow>
            dd_description (datasetDescription
              (generateDatasetDescription sid cur b (set_description txt) s)) = txt)"
  using assms
  by (simp add: generateDatasetDescription_def generate_response_def generate_request_def
      set_description_def console_error_def send_def Let_def)

theorem generation_failure_reverts_sentinel_only_witness:
  "dd_description (datasetDescription
     (generateDatasetDescription (Some ''s1'') ''Q1 sales'' backend_down (\<lambda>s'. s') after_sales)) = [] \<and>
   dd_description (datasetDescription
     (generateDatasetDescription (Some ''s1'') ''Q1 sales'' backend_down
        (set_description ''typed meanwhile'') after_sales)) = ''typed meanwhile''"
proof -
  have h1: "truthy (Some ''s1'')" by (simp add: truthy_def)
  have h2: "create_dataset_description backend_down = Inl too_large"
    by (simp add: backend_down_def)
  have h3: "''typed meanwhile'' \<noteq> generating" by (simp add: generating_def)
  from generation_failure_reverts_sentinel_only
         [OF h1 h2, of "''Q1 sales''" "\<lambda>s'. s'" after_sales "''typed meanwhile''"] h3
  show ?thesis by blast
qed

subsection \<open>Commit of a file without content\<close>

text \<open>
  C5, as stated, fails: when the file input itself holds the file of no bytes and no
  modification time, the commit does not stop; it resets the session and calls the upload
  endpoint. With an empty description the same file is refused for the missing metadata,
  without the alert that asks to select the file again.
\<close>

theorem stale_handle_counterexample:
  "file_size empty_file = 0 \<and> lastModified empty_file = 0 \<and>
   net (handleUploadWithDescription backend_ok empty_file_selected) =
     [ResetSession (Some ''s1''), UploadDataframe empty_file ''Sales'' ''Q1 sales'' (Some ''s1'')] \<and>
   alerts (handleUploadWithDescription backend_ok empty_file_selected) = [] \<and>
   alerts (handleUploadWithDescription backend_ok
             (empty_file_restored\<lparr>datasetDescription := \<lparr>dd_name = ''Sales'', dd_description = []\<rparr>\<rparr>)) = []"
  by code_simp

text \<open>
  C5, amended: a commit with a name and a description, whose file is held by the file
  upload only (the file input holds no file) and has no bytes and no modification time,
  stops with the alert that asks to select the file again: no request is sent, the file
  upload and the stored record are removed, and the preview dialog is closed.
\<close>

theorem stale_handle_commit_stops:
  assumes "dd_name (datasetDescription s) \<noteq> []" and "dd_description (datasetDescription s) \<noteq> []"
    and "fileInput s = None \<or> fileInput s = Some []"
    and "fileUpload s = Some fu" and "file_size (fu_file fu) = 0" and "lastModified (fu_file fu) = 0"
  shows "net (handleUploadWithDescription b s) = net s \<and>
         alerts (handleUploadWithDescription b s) = alerts s @ [SelectFileAgain] \<and>
         fileUpload (handleUploadWithDescription b s) = None \<and>
         lastUploadedFile (handleUploadWithDescription b s) = None \<and>
         showPreview (handleUploadWithDescription b s) = False"
proof -
  from assms(3) show ?thesis
  proof
    assume "fileInput s = None"
    with assms(1,2,4,5,6) show ?thesis
      by (simp add: handleUploadWithDescription_def Let_def clear_error_timeout_def show_alert_def
          split: option.split)
  next
    assume "fileInput s = Some []"
    with assms(1,2,4,5,6) show ?thesis
      by (simp add: handleUploadWithDescription_def Let_def clear_error_timeout_def show_alert_def
          setTimeout_def clear_file_input_def split: option.split)
  qed
qed

theorem stale_handle_commit_stops_witness:
  "net (handleUploadWithDescription backend_ok empty_file_restored) = [] \<and>
   alerts (handleUploadWithDescription backend_ok empty_file_restored) = [SelectFileAgain] \<and>
   fileUpload (handleUploadWithDescription backend_ok empty_file_restored) = None"
proof -
  let ?s = empty_file_restored
  have h1: "dd_name (datasetDescription ?s) \<noteq> []" by code_simp
  have h2: "dd_description (datasetDescription ?s) \<noteq> []" by code_simp
  have h3: "fileInput ?s = None \<or> fileInput ?s = Some []" by code_simp
  have h4: "fileUpload ?s = Some (new_upload empty_file Success)" by code_simp
  have h5: "file_size (fu_file (new_upload empty_file Success)) = 0" by code_simp
  have h6: "lastModified (fu_file (new_upload empty_file Success)) = 0" by code_simp
  have n: "net ?s = []" and a: "alerts ?s = []" by code_simp+
  from stale_handle_commit_stops [OF h1 h2 h3 h4 h5 h6, of backend_ok] n a
  show ?thesis by simp
qed

subsection \<open>Failure of the default dataset fetch\<close>

lemma load_default_failure:
  assumes "default_dataset b = Inl e"
  shows "filePreview (load_default w l1 l2 b s) = filePreview s"
    and "datasetDescription (load_default w l1 l2 b s) = datasetDescription s"
    and "showPreview (load_default w l1 l2 b s) = showPreview s"
    and "sessionId (load_default w l1 l2 b s) = sessionId s"
    and "datasetMismatch (load_default w l1 l2 b s) = datasetMismatch s"
    and "showDatasetResetPopup (load_default w l1 l2 b s) = showDatasetResetPopup s"
    and "errorNotification (load_default w l1 l2 b s) = errorNotification s"
    and "alerts (load_default w l1 l2 b s) = alerts s"
    and "fileUpload (load_default w l1 l2 b s) = None"
    and "lastUploadedFile (load_default w l1 l2 b s) = None"
    and "last (console (load_default w l1 l2 b s)) = l2"
  using assms
  by (simp_all add: load_default_def Let_def clear_file_input_def send_def console_error_def
      split: sum.splits)

text \<open>
  C7, as stated, fails: both operations unset the file upload and remove the stored record
  before they send any request, so a failed fetch does not leave them as they were.
\<close>

theorem default_fetch_failure_counterexample:
  "fileUpload after_sales \<noteq> None \<and> lastUploadedFile after_sales \<noteq> None \<and>
   default_dataset backend_down = Inl too_large \<and>
   fileUpload (handlePreviewDefaultDataset backend_down after_sales) = None \<and>
   lastUploadedFile (handlePreviewDefaultDataset backend_down after_sales) = None \<and>
   fileUpload (handleSilentDefaultDataset backend_down after_sales) = None \<and>
   lastUploadedFile (handleSilentDefaultDataset backend_down after_sales) = None"
  by code_simp

text \<open>
  C7, amended: when the fetch of the default dataset fails, both operations log the
  failure and raise neither an alert nor a notification; the preview, the description, the
  preview dialog, the session id and the mismatch flags are as before, while the file
  upload and the stored record, removed before the first request, are unset.
\<close>

theorem default_fetch_failure_keeps_preview:
  assumes "default_dataset b = Inl e"
  shows "filePreview (handlePreviewDefaultDataset b s) = filePreview s \<and>
         datasetDescription (handlePreviewDefaultDataset b s) = datasetDescription s \<and>
         showPreview (handlePreviewDefaultDataset b s) = showPreview s \<and>
         sessionId (handlePreviewDefaultDataset b s) = sessionId s \<and>
         datasetMismatch (handlePreviewDefaultDataset b s) = datasetMismatch s \<and>
         showDatasetResetPopup (handlePreviewDefaultDataset b s) = showDatasetResetPopup s \<and>
         errorNotification (handlePreviewDefaultDataset b s) = errorNotification s \<and>
         alerts (handlePreviewDefaultDataset b s) = alerts s \<and>
         fileUpload (handlePreviewDefaultDataset b s) = None \<and>
         lastUploadedFile (handlePreviewDefaultDataset b s) = None \<and>
         last (console (handlePreviewDefaultDataset b s)) = ''Failed to fetch dataset preview:'' \<and>
         filePreview (handleSilentDefaultDataset b s) = filePreview s \<and>
         datasetDescription (handleSilentDefaultDataset b s) = datasetDescription s \<and>
         showPreview (handleSilentDefaultDataset b s) = showPreview s \<and>
         sessionId (handleSilentDefaultDataset b s) = sessionId s \<and>
         datasetMismatch (handleSilentDefaultDataset b s) = datasetMismatch s \<and>
         showDatasetResetPopup (handleSilentDefaultDataset b s) = showDatasetResetPopup s \<and>
         errorNotification (handleSilentDefaultDataset b s) = errorNotification s \<and>
         alerts (handleSilentDefaultDataset b s) = alerts s \<and>
         fileUpload (handleSilentDefaultDataset b s) = None \<and>
         lastUploadedFile (handleSilentDefaultDataset b s) = None \<and>
         last (console (handleSilentDefaultDataset b s)) = ''Failed to silently load default dataset:''"
  unfolding handlePreviewDefaultDataset_def handleSilentDefaultDataset_def
  by (simp only: load_default_failure [OF assms] simp_thms)

theorem default_fetch_failure_keeps_preview_witness:
  "filePreview (handlePreviewDefaultDataset backend_down after_sales) = filePreview after_sales \<and>
   datasetDescription (handleSilentDefaultDataset backend_down after_sales) =
     datasetDescription after_sales \<and>
   fileUpload (handlePreviewDefaultDataset backend_down after_sales) = None"
proof -
  have h: "default_dataset backend_down = Inl too_large" by (simp add: backend_down_def)
  from default_fetch_failure_keeps_preview [OF h, of after_sales] show ?thesis by blast
qed

subsection \<open>What the preview functions leave in the file upload\<close>

lemma fileUpload_preview_catch:
  "fileUpload (preview_catch l m msg s) =
     map_option (\<lambda>prev. prev\<lparr>status := Error, errorMessage := Some msg\<rparr>) (fileUpload s)"
  by (simp add: preview_catch_def Let_def set_error_timeout_def setTimeout_def update_fileUpload_def
      console_error_def)

lemma fileUpload_preview_failed:
  "fileUpload (preview_failed l1 m1 l2 m2 e s) =
     map_option (\<lambda>prev. prev\<lparr>status := Error, errorMessage := Some (shown_message e)\<rparr>) (fileUpload s)"
  by (simp add: preview_failed_def shown_message_def fileUpload_preview_catch console_error_def
      option.map_comp comp_def split: option.splits)

lemma fileUpload_reset_before: "fileUpload (reset_before l b s) = fileUpload s"
  by (simp add: reset_before_def Let_def send_def console_error_def split: sum.splits)

lemma fileUpload_clear_error_timeout: "fileUpload (clear_error_timeout s) = fileUpload s"
  by (simp add: clear_error_timeout_def split: option.splits)

lemma fileUpload_send: "fileUpload (send r s) = fileUpload s"
  by (simp add: send_def)

lemma fileUpload_fetch_preview:
  "fileUpload (fetch_preview tn n sd ic ed failed up b s) =
     (case preview_csv b of
        Inl e \<Rightarrow> fileUpload (failed e (send (PreviewCsv (sid_header
                    (if truthy (up_session_id up) then up_session_id up else sessionId s))) s))
      | Inr pv \<Rightarrow> fileUpload s)"
  by (simp add: fetch_preview_def Let_def send_def setTimeout_def split: sum.splits)

lemma fileUpload_handleFilePreview:
  "fileUpload (handleFilePreview f n b s) =
     (if file_type f = ''text/csv'' \<or> endsWith (toLowerCase (file_name f)) ''.csv'' then
        (case upload b of
           Inl e \<Rightarrow> map_option (with_error (shown_message e)) (fileUpload s)
         | Inr up \<Rightarrow>
             (case preview_csv b of
                Inl e \<Rightarrow> map_option (with_error (shown_message e) \<circ> with_upload_id up) (fileUpload s)
              | Inr pv \<Rightarrow> map_option (with_upload_id up) (fileUpload s)))
      else map_option (with_error ''Please upload a CSV file only'') (fileUpload s))"
  unfolding handleFilePreview_def Let_def
  by (simp add: fileUpload_preview_failed fileUpload_reset_before fileUpload_clear_error_timeout
      fileUpload_send fileUpload_fetch_preview update_fileUpload_def set_error_timeout_def
      setTimeout_def with_upload_id_def with_error_def option.map_comp comp_def option.map_ident
      split: sum.splits option.splits)

subsection \<open>File classification\<close>

lemma net_preview_failed: "net (preview_failed l1 m1 l2 m2 e s) = net s"
  by (simp add: preview_failed_def preview_catch_def Let_def set_error_timeout_def setTimeout_def
      update_fileUpload_def console_error_def split: option.splits)

lemma net_reset_before:
  "net (reset_before l b s) = net s @ (if truthy (sessionId s) then [ResetSession (sessionId s)] else [])"
  by (simp add: reset_before_def Let_def send_def console_error_def split: sum.splits)

lemma sessionId_reset_before: "sessionId (reset_before l b s) = sessionId s"
  by (simp add: reset_before_def Let_def send_def console_error_def split: sum.splits)

lemma net_clear_error_timeout: "net (clear_error_timeout s) = net s"
  and sessionId_clear_error_timeout: "sessionId (clear_error_timeout s) = sessionId s"
  by (simp_all add: clear_error_timeout_def split: option.splits)

lemma net_handleFilePreview_new:
  "net (handleFilePreview f True b s) =
     (if file_type f = ''text/csv'' \<or> endsWith (toLowerCase (file_name f)) ''.csv'' then
        net s @ (if truthy (sessionId s) then [ResetSession (sessionId s)] else []) @
        [UploadDataframe f (remove_first ''.csv'' (file_name f)) placeholder (sid_header (sessionId s))] @
        (case upload b of
           Inl e \<Rightarrow> []
         | Inr up \<Rightarrow> [PreviewCsv (sid_header (if truthy (up_session_id up) then up_session_id up
                                               else sessionId s))])
      else net s)"
  unfolding handleFilePreview_def Let_def fetch_preview_def
  by (simp add: net_preview_failed net_reset_before sessionId_reset_before net_clear_error_timeout
      sessionId_clear_error_timeout update_fileUpload_def set_error_timeout_def send_def
      setTimeout_def split: sum.splits option.splits)

lemma notification_handleFilePreview_refused:
  assumes "\<not> (file_type f = ''text/csv'' \<or> endsWith (toLowerCase (file_name f)) ''.csv'')"
  shows "errorNotification (handleFilePreview f n b s) =
           Some (''Invalid file format'', ''Please upload a CSV file. Other file formats are not supported.'')"
  using assms
  by (simp add: handleFilePreview_def Let_def update_fileUpload_def set_error_timeout_def
      setTimeout_def)

lemmas handleFileSelect_rejected = handleFileSelect_def [folded rejected_def]

lemma excel_route:
  assumes "isExcelByExtension f \<or> isExcelByType f"
  shows "net (handleFileSelect (Some f) b s) = net s @ [ExcelSheets f (sid_header (sessionId s))]"
    and "Option.bind (fileUpload (handleFileSelect (Some f) b s)) isExcel = Some True"
  using assms
  by (auto simp add: handleFileSelect_def Let_def excel_failed_def excel_catch_def select_catch_def
      update_fileUpload_def set_error_timeout_def setTimeout_def send_def new_upload_def
      net_clear_error_timeout sessionId_clear_error_timeout
      split: sum.splits option.splits list.splits)

lemma csv_route:
  assumes "\<not> isExcelByExtension f" and "\<not> isExcelByType f"
    and "isCSVByExtension f \<or> file_type f = ''text/csv''"
  shows "net (handleFileSelect (Some f) b s) =
           net s @ (if truthy (sessionId s) then [ResetSession (sessionId s)] else []) @
           [UploadDataframe f (remove_first ''.csv'' (file_name f)) placeholder (sid_header (sessionId s))] @
           (case upload b of
              Inl e \<Rightarrow> []
            | Inr up \<Rightarrow> [PreviewCsv (sid_header (if truthy (up_session_id up) then up_session_id up
                                                  else sessionId s))])"
    and "Option.bind (fileUpload (handleFileSelect (Some f) b s)) isExcel = Some False"
proof -
  have t: "file_type f = ''text/csv'' \<or> endsWith (toLowerCase (file_name f)) ''.csv''"
    using assms(3) by (auto simp add: isCSVByExtension_def)
  have g: "\<not> rejected f"
    using assms(3) by (auto simp add: rejected_def isCSVByType_def)
  have x: "\<not> (isExcelByExtension f \<or> isExcelByType f)"
    using assms(1,2) by simp
  show "net (handleFileSelect (Some f) b s) =
           net s @ (if truthy (sessionId s) then [ResetSession (sessionId s)] else []) @
           [UploadDataframe f (remove_first ''.csv'' (file_name f)) placeholder (sid_header (sessionId s))] @
           (case upload b of
              Inl e \<Rightarrow> []
            | Inr up \<Rightarrow> [PreviewCsv (sid_header (if truthy (up_session_id up) then up_session_id up
                                                  else sessionId s))])"
    using t
    by (simp add: handleFileSelect_rejected Let_def g x net_handleFilePreview_new update_fileUpload_def
        net_clear_error_timeout sessionId_clear_error_timeout split: sum.splits)
  show "Option.bind (fileUpload (handleFileSelect (Some f) b s)) isExcel = Some False"
    using t
    by (simp add: handleFileSelect_rejected Let_def g x fileUpload_handleFilePreview update_fileUpload_def
        new_upload_def with_error_def with_upload_id_def
        split: sum.splits option.splits)
qed

lemma refused_route:
  assumes "\<not> isExcelByExtension f" and "\<not> isExcelByType f"
    and "\<not> isCSVByExtension f" and "file_type f \<noteq> ''text/csv''"
  shows "net (handleFileSelect (Some f) b s) = net s"
    and "errorNotification (handleFileSelect (Some f) b s) =
           Some (''Invalid file format'',
                 if file_type f = [] \<or> file_type f = ''application/csv''
                 then ''Please upload a CSV file. Other file formats are not supported.''
                 else ''Please upload a CSV or Excel file only. Other file formats are not supported.'')"
    and "Option.bind (fileUpload (handleFileSelect (Some f) b s)) errorMessage =
           Some (if file_type f = [] \<or> file_type f = ''application/csv''
                 then ''Please upload a CSV file only''
                 else ''Please upload a CSV or Excel file only'')"
proof -
  have t: "\<not> (file_type f = ''text/csv'' \<or> endsWith (toLowerCase (file_name f)) ''.csv'')"
    using assms(3,4) by (simp add: isCSVByExtension_def)
  have g: "rejected f \<longleftrightarrow> \<not> (file_type f = [] \<or> file_type f = ''application/csv'')"
    using assms by (auto simp add: rejected_def isCSVByType_def)
  have x: "\<not> (isExcelByExtension f \<or> isExcelByType f)"
    using assms(1,2) by simp
  show "net (handleFileSelect (Some f) b s) = net s"
    using t
    by (simp add: handleFileSelect_rejected Let_def x net_handleFilePreview_new update_fileUpload_def
        net_clear_error_timeout set_error_timeout_def setTimeout_def)
  show "errorNotification (handleFileSelect (Some f) b s) =
           Some (''Invalid file format'',
                 if file_type f = [] \<or> file_type f = ''application/csv''
                 then ''Please upload a CSV file. Other file formats are not supported.''
                 else ''Please upload a CSV or Excel file only. Other file formats are not supported.'')"
    using t
    by (simp add: handleFileSelect_rejected Let_def g x notification_handleFilePreview_refused
        update_fileUpload_def set_error_timeout_def setTimeout_def)
  show "Option.bind (fileUpload (handleFileSelect (Some f) b s)) errorMessage =
           Some (if file_type f = [] \<or> file_type f = ''application/csv''
                 then ''Please upload a CSV file only''
                 else ''Please upload a CSV or Excel file only'')"
    using t
    by (simp add: handleFileSelect_rejected Let_def g x fileUpload_handleFilePreview
        update_fileUpload_def set_error_timeout_def setTimeout_def new_upload_def with_error_def)
qed

text \<open>
  C4, as stated, fails for a \<open>.csv\<close> file that the browser declares with an Excel type:
  handleFileSelect does not treat it as CSV but as a spreadsheet, asks the backend for its
  sheets and opens the sheet selection.
\<close>

theorem csv_with_excel_type_counterexample:
  "isCSVByExtension windows_csv \<and>
   net (handleFileSelect (Some windows_csv) backend_ok init) = [ExcelSheets windows_csv None] \<and>
   Option.bind (fileUpload (handleFileSelect (Some windows_csv) backend_ok init)) isExcel = Some True \<and>
   showSheetSelector (handleFileSelect (Some windows_csv) backend_ok init)"
  by code_simp

text \<open>
  C4, amended, as what handleFileSelect does with the selected file. A file with an Excel
  extension or a declared Excel type is treated as a spreadsheet: the one request sent is
  the sheet enumeration. Any other file with the extension \<open>.csv\<close> or the declared type
  \<open>text/csv\<close> is treated as CSV: it is uploaded (after the session reset, and followed by
  the preview request when the upload is accepted). Every other file is refused: no
  request is sent, and the notification "Invalid file format" and an error message on the
  file upload are set.
\<close>

theorem file_select_routes_by_extension_and_type:
  "(isExcelByExtension f \<or> isExcelByType f \<longrightarrow>
      net (handleFileSelect (Some f) b s) = net s @ [ExcelSheets f (sid_header (sessionId s))] \<and>
      Option.bind (fileUpload (handleFileSelect (Some f) b s)) isExcel = Some True) \<and>
   (\<not> isExcelByExtension f \<and> \<not> isExcelByType f \<and> (isCSVByExtension f \<or> file_type f = ''text/csv'') \<longrightarrow>
      net (handleFileSelect (Some f) b s) =
        net s @ (if truthy (sessionId s) then [ResetSession (sessionId s)] else []) @
        [UploadDataframe f (remove_first ''.csv'' (file_name f)) placeholder (sid_header (sessionId s))] @
        (case upload b of
           Inl e \<Rightarrow> []
         | Inr up \<Rightarrow> [PreviewCsv (sid_header (if truthy (up_session_id up) then up_session_id up
                                               else sessionId s))]) \<and>
      Option.bind (fileUpload (handleFileSelect (Some f) b s)) isExcel = Some False) \<and>
   (\<not> isExcelByExtension f \<and> \<not> isExcelByType f \<and> \<not> isCSVByExtension f \<and> file_type f \<noteq> ''text/csv'' \<longrightarrow>
      net (handleFileSelect (Some f) b s) = net s \<and>
      errorNotification (handleFileSelect (Some f) b s) =
        Some (''Invalid file format'',
              if file_type f = [] \<or> file_type f = ''application/csv''
              then ''Please upload a CSV file. Other file formats are not supported.''
              else ''Please upload a CSV or Excel file only. Other file formats are not supported.'') \<and>
      Option.bind (fileUpload (handleFileSelect (Some f) b s)) errorMessage =
        Some (if file_type f = [] \<or> file_type f = ''application/csv''
              then ''Please upload a CSV file only''
              else ''Please upload a CSV or Excel file only''))"
  using excel_route [of f b s] csv_route [of f b s] refused_route [of f b s]
  by blast

theorem file_select_routes_by_extension_and_type_witness:
  "net (handleFileSelect (Some book_xlsx) backend_ok init) = [ExcelSheets book_xlsx None] \<and>
   net (handleFileSelect (Some sales_csv) backend_ok init) =
     [UploadDataframe sales_csv ''sales'' placeholder None, PreviewCsv (Some ''s2'')] \<and>
   net (handleFileSelect (Some export_dat) backend_down init) =
     [UploadDataframe export_dat ''export.dat'' placeholder None] \<and>
   net (handleFileSelect (Some notes_txt) backend_ok init) = [] \<and>
   net (handleFileSelect (Some legacy_dat) backend_ok init) = [] \<and>
   net (handleFileSelect (Some photo_png) backend_ok init) = [] \<and>
   errorNotification (handleFileSelect (Some notes_txt) backend_ok init) =
     Some (''Invalid file format'', ''Please upload a CSV file. Other file formats are not supported.'') \<and>
   errorNotification (handleFileSelect (Some photo_png) backend_ok init) =
     Some (''Invalid file format'',
           ''Please upload a CSV or Excel file only. Other file formats are not supported.'')"
proof -
  have i: "net init = [] \<and> sessionId init = None \<and> \<not> truthy None \<and> sid_header None = None"
    by (simp add: init_def truthy_def sid_header_def)
  have h1: "isExcelByExtension book_xlsx \<or> isExcelByType book_xlsx" by code_simp
  have h2: "\<not> isExcelByExtension sales_csv \<and> \<not> isExcelByType sales_csv \<and>
            (isCSVByExtension sales_csv \<or> file_type sales_csv = ''text/csv'')" by code_simp
  have h3: "\<not> isExcelByExtension export_dat \<and> \<not> isExcelByType export_dat \<and>
            (isCSVByExtension export_dat \<or> file_type export_dat = ''text/csv'')" by code_simp
  have h4: "\<not> isExcelByExtension notes_txt \<and> \<not> isExcelByType notes_txt \<and>
            \<not> isCSVByExtension notes_txt \<and> file_type notes_txt \<noteq> ''text/csv'' \<and>
            file_type notes_txt = []" by code_simp
  have h5: "\<not> isExcelByExtension legacy_dat \<and> \<not> isExcelByType legacy_dat \<and>
            \<not> isCSVByExtension legacy_dat \<and> file_type legacy_dat \<noteq> ''text/csv''" by code_simp
  have h6: "\<not> isExcelByExtension photo_png \<and> \<not> isExcelByType photo_png \<and>
            \<not> isCSVByExtension photo_png \<and> file_type photo_png \<noteq> ''text/csv'' \<and>
            file_type photo_png \<noteq> [] \<and> file_type photo_png \<noteq> ''application/csv''" by code_simp
  have n2: "remove_first ''.csv'' (file_name sales_csv) = ''sales'' \<and>
            remove_first ''.csv'' (file_name export_dat) = ''export.dat''" by code_simp
  have u: "upload backend_ok = Inr \<lparr>up_status = 200, up_session_id = Some ''s2'',
                                     up_dataset_upload_id = Some 7\<rparr> \<and>
           upload backend_down = Inl too_large \<and> truthy (Some ''s2'') \<and>
           sid_header (Some ''s2'') = Some ''s2''"
    by (simp add: backend_ok_def backend_down_def truthy_def sid_header_def)
  have c1: "net (handleFileSelect (Some book_xlsx) backend_ok init) = [ExcelSheets book_xlsx None]"
    using file_select_routes_by_extension_and_type [of book_xlsx backend_ok init] h1 i by simp
  have c2: "net (handleFileSelect (Some sales_csv) backend_ok init) =
              [UploadDataframe sales_csv ''sales'' placeholder None, PreviewCsv (Some ''s2'')]"
    using file_select_routes_by_extension_and_type [of sales_csv backend_ok init] h2 i n2 u by simp
  have c3: "net (handleFileSelect (Some export_dat) backend_down init) =
              [UploadDataframe export_dat ''export.dat'' placeholder None]"
    using file_select_routes_by_extension_and_type [of export_dat backend_down init] h3 i n2 u by simp
  have c4: "net (handleFileSelect (Some notes_txt) backend_ok init) = [] \<and>
            errorNotification (handleFileSelect (Some notes_txt) backend_ok init) =
              Some (''Invalid file format'', ''Please upload a CSV file. Other file formats are not supported.'')"
    using file_select_routes_by_extension_and_type [of notes_txt backend_ok init] h4 i by simp
  have c5: "net (handleFileSelect (Some legacy_dat) backend_ok init) = []"
    using file_select_routes_by_extension_and_type [of legacy_dat backend_ok init] h5 i by simp
  have c6: "net (handleFileSelect (Some photo_png) backend_ok init) = [] \<and>
            errorNotification (handleFileSelect (Some photo_png) backend_ok init) =
              Some (''Invalid file format'',
                    ''Please upload a CSV or Excel file only. Other file formats are not supported.'')"
    using file_select_routes_by_extension_and_type [of photo_png backend_ok init] h6 i by simp
  from c1 c2 c3 c4 c5 c6 show ?thesis by blast
qed

subsection \<open>What selecting a file leaves in the preview and the description\<close>

lemma filePreview_preview_catch: "filePreview (preview_failed l1 m1 l2 m2 e s) = filePreview s"
  and datasetDescription_preview_catch:
    "datasetDescription (preview_failed l1 m1 l2 m2 e s) = datasetDescription s"
  by (simp_all add: preview_failed_def preview_catch_def Let_def set_error_timeout_def setTimeout_def
      update_fileUpload_def console_error_def split: option.splits)

lemma filePreview_reset_before: "filePreview (reset_before l b s) = filePreview s"
  and datasetDescription_reset_before: "datasetDescription (reset_before l b s) = datasetDescription s"
  by (simp_all add: reset_before_def Let_def send_def console_error_def split: sum.splits)

lemma filePreview_clear_error_timeout: "filePreview (clear_error_timeout s) = filePreview s"
  and datasetDescription_clear_error_timeout: "datasetDescription (clear_error_timeout s) = datasetDescription s"
  by (simp_all add: clear_error_timeout_def split: option.splits)

lemma preview_handleFilePreview_new:
  "filePreview (handleFilePreview f True b s) =
     (if file_type f = ''text/csv'' \<or> endsWith (toLowerCase (file_name f)) ''.csv'' then
        (case upload b of
           Inl e \<Rightarrow> filePreview s
         | Inr up \<Rightarrow>
             (case preview_csv b of
                Inl e \<Rightarrow> filePreview s
              | Inr pv \<Rightarrow> Some \<lparr>headers = pv_headers pv, rows = pv_rows pv,
                                fp_name = or_else (pv_name pv) (remove_first ''.csv'' (file_name f)),
                                fp_description = placeholder\<rparr>))
      else filePreview s)"
  unfolding handleFilePreview_def Let_def fetch_preview_def
  by (simp add: filePreview_preview_catch filePreview_reset_before filePreview_clear_error_timeout
      update_fileUpload_def set_error_timeout_def send_def
      setTimeout_def split: sum.splits option.splits)

lemma description_handleFilePreview_new:
  "datasetDescription (handleFilePreview f True b s) =
     (if file_type f = ''text/csv'' \<or> endsWith (toLowerCase (file_name f)) ''.csv'' then
        (case upload b of
           Inl e \<Rightarrow> datasetDescription s
         | Inr up \<Rightarrow>
             (case preview_csv b of
                Inl e \<Rightarrow> datasetDescription s
              | Inr pv \<Rightarrow> \<lparr>dd_name = or_else (pv_name pv) (remove_first ''.csv'' (file_name f)),
                           dd_description = placeholder\<rparr>))
      else datasetDescription s)"
  unfolding handleFilePreview_def Let_def fetch_preview_def
  by (simp add: datasetDescription_preview_catch datasetDescription_reset_before
      datasetDescription_clear_error_timeout
      update_fileUpload_def set_error_timeout_def send_def
      setTimeout_def split: sum.splits option.splits)

lemma fileUpload_handleFileSelect_frame:
  "fileUpload (handleFileSelect (Some f) b
       (s\<lparr>fileUpload := fu, filePreview := fp, datasetDescription := dd, lastUploadedFile := ls\<rparr>)) =
   fileUpload (handleFileSelect (Some f) b s)"
  unfolding handleFileSelect_def Let_def
  by (simp add: fileUpload_handleFilePreview update_fileUpload_def excel_catch_def excel_failed_def select_catch_def
      set_error_timeout_def setTimeout_def send_def Let_def
      split: sum.splits option.splits list.splits)

lemma filePreview_handleFileSelect:
  "filePreview (handleFileSelect (Some f) b s) =
     (if classify f = CSV \<and> (file_type f = ''text/csv'' \<or> endsWith (toLowerCase (file_name f)) ''.csv'') then
        (case upload b of
           Inl e \<Rightarrow> filePreview s
         | Inr up \<Rightarrow>
             (case preview_csv b of
                Inl e \<Rightarrow> filePreview s
              | Inr pv \<Rightarrow> Some \<lparr>headers = pv_headers pv, rows = pv_rows pv,
                                fp_name = or_else (pv_name pv) (remove_first ''.csv'' (file_name f)),
                                fp_description = placeholder\<rparr>))
      else filePreview s)"
  unfolding handleFileSelect_def Let_def classify_def rejected_def
  by (simp add: preview_handleFilePreview_new update_fileUpload_def excel_catch_def excel_failed_def select_catch_def
      set_error_timeout_def setTimeout_def send_def Let_def filePreview_clear_error_timeout
      split: sum.splits option.splits list.splits)

lemma datasetDescription_handleFileSelect:
  "datasetDescription (handleFileSelect (Some f) b s) =
     (if classify f = CSV \<and> (file_type f = ''text/csv'' \<or> endsWith (toLowerCase (file_name f)) ''.csv'') then
        (case upload b of
           Inl e \<Rightarrow> datasetDescription s
         | Inr up \<Rightarrow>
             (case preview_csv b of
                Inl e \<Rightarrow> datasetDescription s
              | Inr pv \<Rightarrow> \<lparr>dd_name = or_else (pv_name pv) (remove_first ''.csv'' (file_name f)),
                           dd_description = placeholder\<rparr>))
      else datasetDescription s)"
  unfolding handleFileSelect_def Let_def classify_def rejected_def
  by (simp add: description_handleFilePreview_new update_fileUpload_def excel_catch_def excel_failed_def select_catch_def
      set_error_timeout_def setTimeout_def send_def Let_def datasetDescription_clear_error_timeout
      split: sum.splits option.splits list.splits)

subsection \<open>Which operations touch the stored record\<close>

lemma stored_preview_catch: "lastUploadedFile (preview_failed l1 m1 l2 m2 e s) = lastUploadedFile s"
  by (simp add: preview_failed_def preview_catch_def Let_def set_error_timeout_def setTimeout_def
      update_fileUpload_def console_error_def split: option.splits)

lemma stored_reset_before: "lastUploadedFile (reset_before l b s) = lastUploadedFile s"
  by (simp add: reset_before_def Let_def send_def console_error_def split: sum.splits)

lemma stored_clear_error_timeout: "lastUploadedFile (clear_error_timeout s) = lastUploadedFile s"
  by (simp add: clear_error_timeout_def split: option.splits)

lemma stored_fetch_preview:
  "lastUploadedFile (fetch_preview tn n sd ic ed failed up b s) =
     (case preview_csv b of
        Inl e \<Rightarrow> lastUploadedFile (failed e (send (PreviewCsv (sid_header
                    (if truthy (up_session_id up) then up_session_id up else sessionId s))) s))
      | Inr pv \<Rightarrow> lastUploadedFile s)"
  by (simp add: fetch_preview_def Let_def send_def setTimeout_def split: sum.splits)

lemma stored_send: "lastUploadedFile (send r s) = lastUploadedFile s"
  by (simp add: send_def)

lemma stored_update_fileUpload: "lastUploadedFile (update_fileUpload g s) = lastUploadedFile s"
  by (simp add: update_fileUpload_def)

lemma stored_set_error_timeout: "lastUploadedFile (set_error_timeout a ms s) = lastUploadedFile s"
  by (simp add: set_error_timeout_def setTimeout_def)

lemma stored_handleFilePreview: "lastUploadedFile (handleFilePreview f n b s) = lastUploadedFile s"
  unfolding handleFilePreview_def Let_def
  by (simp add: stored_preview_catch stored_reset_before stored_clear_error_timeout
      stored_fetch_preview stored_send stored_update_fileUpload stored_set_error_timeout
      split: sum.splits option.splits)

lemma stored_handleExcelSheetPreview:
  "lastUploadedFile (handleExcelSheetPreview f sh n b s) = lastUploadedFile s"
  unfolding handleExcelSheetPreview_def Let_def
  by (simp add: stored_preview_catch stored_reset_before stored_clear_error_timeout
      stored_fetch_preview stored_send stored_update_fileUpload stored_set_error_timeout
      split: sum.splits option.splits)

lemma stored_handleFileSelect:
  "lastUploadedFile (handleFileSelect fo b s) =
     (case fo of None \<Rightarrow> lastUploadedFile s
      | Some f \<Rightarrow> if classify f = Unsupported then lastUploadedFile s else None)"
  unfolding handleFileSelect_def Let_def classify_def rejected_def
  by (simp add: stored_handleFilePreview update_fileUpload_def excel_catch_def excel_failed_def select_catch_def
      set_error_timeout_def setTimeout_def send_def Let_def stored_clear_error_timeout
      split: sum.splits option.splits list.splits)

lemma stored_handleSheetSelectionConfirm:
  "lastUploadedFile (handleSheetSelectionConfirm b s) = lastUploadedFile s"
  by (simp add: handleSheetSelectionConfirm_def Let_def stored_handleExcelSheetPreview
      update_fileUpload_def split: option.splits)

lemma stored_preview_button: "lastUploadedFile (preview_button b s) = lastUploadedFile s"
  by (simp add: preview_button_def stored_handleExcelSheetPreview stored_handleFilePreview
      split: option.splits)

lemma stored_generate:
  "lastUploadedFile (generateDatasetDescription sid cur b (\<lambda>s'. s') s) = lastUploadedFile s"
  by (simp add: generateDatasetDescription_def generate_response_def generate_request_def
      set_description_def console_error_def send_def Let_def split: sum.splits)

lemma stored_load_default: "lastUploadedFile (load_default w l1 l2 b s) = None"
  by (simp add: load_default_def Let_def clear_file_input_def send_def console_error_def
      split: sum.splits)

lemma stored_handleDatasetReset:
  "lastUploadedFile (handleDatasetReset k b s) = lastUploadedFile s \<or>
   lastUploadedFile (handleDatasetReset k b s) = None"
  by (simp add: handleDatasetReset_def Let_def stored_handleFilePreview stored_load_default
      handlePreviewDefaultDataset_def setTimeout_def clear_file_input_def split: option.splits)

lemma stored_checkSessionDataset:
  "lastUploadedFile (checkSessionDataset b now s) = lastUploadedFile s \<or>
   lastUploadedFile (checkSessionDataset b now s) = None"
  by (simp add: checkSessionDataset_def checkSessionDataset_then_def Let_def send_def console_error_def
      split: sum.splits option.splits)

lemma stored_chat_switch_effect:
  "lastUploadedFile (chat_switch_effect b now s) = lastUploadedFile s \<or>
   lastUploadedFile (chat_switch_effect b now s) = None"
  by (simp add: chat_switch_effect_def chat_switch_then_def Let_def send_def console_error_def
      split: sum.splits option.splits)

lemma stored_fire:
  "lastUploadedFile (fire t b s) = lastUploadedFile s \<or> lastUploadedFile (fire t b s) = None"
  by (simp add: fire_def run_timer_def stored_generate
      split: list.splits timer_action.splits prod.splits)

lemma stored_commit:
  "lastUploadedFile (handleUploadWithDescription b s) = lastUploadedFile s \<or>
   lastUploadedFile (handleUploadWithDescription b s) = None \<or>
   (dd_name (datasetDescription s) \<noteq> [] \<and> dd_description (datasetDescription s) \<noteq> [] \<and>
    (\<exists>r. upload b = Inr r))"
  by (simp add: handleUploadWithDescription_def Let_def stored_reset_before stored_clear_error_timeout
      commit_catch_def commit_finish_def commit_accepted_def show_alert_def console_error_def
      send_def setTimeout_def set_error_timeout_def clear_file_input_def
      split: sum.splits option.splits list.splits)

lemma commit_writes:
  assumes "dd_name (datasetDescription s) \<noteq> []" and "dd_description (datasetDescription s) \<noteq> []"
    and "fileInput s = Some (af # afs)" and "upload b = Inr r"
  shows "lastUploadedFile (handleUploadWithDescription b s) =
           Some \<lparr>ls_name = (if endsWith (dd_name (datasetDescription s)) ''.csv''
                            then dd_name (datasetDescription s)
                            else dd_name (datasetDescription s) @ ''.csv''),
                 ls_type = ''text/csv'', ls_lastModified = lastModified af,
                 ls_isExcel = Some (Option.bind (fileUpload s) isExcel = Some True \<or>
                                    endsWith (toLowerCase (file_name af)) ''.xlsx'' \<or>
                                    endsWith (toLowerCase (file_name af)) ''.xls''),
                 ls_selectedSheet = Option.bind (fileUpload s) selectedSheet\<rparr>"
  using assms
  by (simp add: handleUploadWithDescription_def Let_def commit_finish_def setTimeout_def)

lemma stored_written_only:
  "lastUploadedFile (step b now ev s) = lastUploadedFile s \<or>
   lastUploadedFile (step b now ev s) = None \<or>
   (ev = PersistEffect \<and> (\<exists>fu. fileUpload s = Some fu \<and> status fu = Success \<and>
      lastUploadedFile (step b now ev s) =
        Some \<lparr>ls_name = file_name (fu_file fu), ls_type = file_type (fu_file fu),
              ls_lastModified = lastModified (fu_file fu), ls_isExcel = None,
              ls_selectedSheet = None\<rparr>)) \<or>
   (ev = Commit \<and> dd_name (datasetDescription s) \<noteq> [] \<and> dd_description (datasetDescription s) \<noteq> [] \<and>
      (\<exists>r. upload b = Inr r))"
proof (cases ev)
  case (FileSelect fo)
  then show ?thesis by (simp add: step_def stored_handleFileSelect split: option.splits)
next
  case (SheetChange sheet)
  then show ?thesis by (simp add: step_def sheetSelector_onValueChange_def update_fileUpload_def)
next
  case SheetConfirm
  then show ?thesis by (simp add: step_def stored_handleSheetSelectionConfirm)
next
  case (SheetDismiss o')
  then show ?thesis by (simp add: step_def sheetSelector_onOpenChange_def)
next
  case SheetCancel
  then show ?thesis by (simp add: step_def sheetSelector_cancel_def)
next
  case PreviewButton
  then show ?thesis by (simp add: step_def stored_preview_button)
next
  case (PreviewDismiss o')
  then show ?thesis by (simp add: step_def preview_onOpenChange_def clear_file_input_def Let_def)
next
  case ClearFile
  then show ?thesis by (simp add: step_def clearFile_def clear_file_input_def)
next
  case (EditName n)
  then show ?thesis by (simp add: step_def set_name_def)
next
  case (EditDescription d)
  then show ?thesis by (simp add: step_def set_description_def)
next
  case Generate
  then show ?thesis by (simp add: step_def stored_generate)
next
  case PreviewDefault
  then show ?thesis by (simp add: step_def handlePreviewDefaultDataset_def stored_load_default)
next
  case SilentDefault
  then show ?thesis by (simp add: step_def handleSilentDefaultDataset_def stored_load_default)
next
  case Commit
  then show ?thesis using stored_commit [of b s] by (simp add: step_def)
next
  case (DatasetReset k)
  then show ?thesis using stored_handleDatasetReset [of k b s] by (simp add: step_def)
next
  case CheckSession
  then show ?thesis using stored_checkSessionDataset [of b now s] by (simp add: step_def)
next
  case ChatSwitch
  then show ?thesis using stored_chat_switch_effect [of b now s] by (simp add: step_def)
next
  case RestoreEffect
  then show ?thesis by (simp add: step_def restore_effect_def split: option.splits)
next
  case PersistEffect
  then show ?thesis by (simp add: step_def persist_effect_def Let_def split: option.splits)
next
  case (Fire t)
  then show ?thesis using stored_fire [of t b s] by (simp add: step_def)
qed

text \<open>
  C1, as stated, fails: after the sheets of a selected spreadsheet are listed, the file
  upload has status Success and the effect on it writes the record, with no commit and
  no upload request at all.
\<close>

theorem stored_record_counterexample:
  "lastUploadedFile init = None \<and>
   net (step backend_ok 0 PersistEffect (step backend_ok 0 (FileSelect (Some book_xlsx)) init)) =
     [ExcelSheets book_xlsx None] \<and>
   lastUploadedFile (step backend_ok 0 PersistEffect (step backend_ok 0 (FileSelect (Some book_xlsx)) init)) =
     Some \<lparr>ls_name = ''book.xlsx'', ls_type = [], ls_lastModified = 1000, ls_isExcel = None,
           ls_selectedSheet = None\<rparr>"
  by code_simp

text \<open>
  C1, amended: an operation that changes the stored record either removes it, or is the
  storing effect run on a file upload of status Success (it stores that file's name, type
  and modification time), or is a commit with a name and a description whose upload
  request is accepted. The effect does write on status Success, and such a commit of a
  file held by the file input writes the final name with the type \<open>text/csv\<close>. The
  reset to the default dataset removes the record, and so does the reconciliation when
  the server reports no custom dataset and the file upload does not show Success.
\<close>

theorem stored_record_writers:
  "(lastUploadedFile (step b now ev s) = lastUploadedFile s \<or>
    lastUploadedFile (step b now ev s) = None \<or>
    (ev = PersistEffect \<and> (\<exists>fu. fileUpload s = Some fu \<and> status fu = Success \<and>
       lastUploadedFile (step b now ev s) =
         Some \<lparr>ls_name = file_name (fu_file fu), ls_type = file_type (fu_file fu),
               ls_lastModified = lastModified (fu_file fu), ls_isExcel = None,
               ls_selectedSheet = None\<rparr>)) \<or>
    (ev = Commit \<and> dd_name (datasetDescription s) \<noteq> [] \<and> dd_description (datasetDescription s) \<noteq> [] \<and>
       (\<exists>r. upload b = Inr r))) \<and>
   (fileUpload s = Some fu \<and> status fu = Success \<longrightarrow>
      lastUploadedFile (step b now PersistEffect s) =
        Some \<lparr>ls_name = file_name (fu_file fu), ls_type = file_type (fu_file fu),
              ls_lastModified = lastModified (fu_file fu), ls_isExcel = None,
              ls_selectedSheet = None\<rparr>) \<and>
   (dd_name (datasetDescription s) \<noteq> [] \<and> dd_description (datasetDescription s) \<noteq> [] \<and>
    fileInput s = Some (af # afs) \<and> upload b = Inr r \<longrightarrow>
      lastUploadedFile (step b now Commit s) =
        Some \<lparr>ls_name = (if endsWith (dd_name (datasetDescription s)) ''.csv''
                         then dd_name (datasetDescription s)
                         else dd_name (datasetDescription s) @ ''.csv''),
              ls_type = ''text/csv'', ls_lastModified = lastModified af,
              ls_isExcel = Some (Option.bind (fileUpload s) isExcel = Some True \<or>
                                 endsWith (toLowerCase (file_name af)) ''.xlsx'' \<or>
                                 endsWith (toLowerCase (file_name af)) ''.xls''),
              ls_selectedSheet = Option.bind (fileUpload s) selectedSheet\<rparr>) \<and>
   lastUploadedFile (step b now (DatasetReset False) s) = None \<and>
   (truthy (sessionId s) \<and> get_session_info b = Inr info \<and> \<not> is_custom_dataset info \<and>
    map_option status (fileUpload s) \<noteq> Some Success \<longrightarrow>
      lastUploadedFile (step b now CheckSession s) = None)"
proof (intro conjI impI)
  show "lastUploadedFile (step b now (DatasetReset False) s) = None"
    by (simp add: step_def handleDatasetReset_def handlePreviewDefaultDataset_def stored_load_default)
qed (rule stored_written_only,
     auto simp add: step_def persist_effect_def commit_writes checkSessionDataset_def
       checkSessionDataset_then_def send_def Let_def)

theorem stored_record_writers_witness:
  "(lastUploadedFile (step backend_ok 0 (FileSelect (Some sales_csv)) after_sales) =
      lastUploadedFile after_sales \<or>
    lastUploadedFile (step backend_ok 0 (FileSelect (Some sales_csv)) after_sales) = None) \<and>
   lastUploadedFile (step backend_ok 0 PersistEffect after_sales) =
     Some \<lparr>ls_name = ''sales.csv'', ls_type = ''text/csv'', ls_lastModified = 1000,
           ls_isExcel = None, ls_selectedSheet = None\<rparr> \<and>
   lastUploadedFile (step backend_ok 0 Commit sales_ready) =
     Some \<lparr>ls_name = ''Sales.csv'', ls_type = ''text/csv'', ls_lastModified = 1000,
           ls_isExcel = Some False, ls_selectedSheet = None\<rparr> \<and>
   lastUploadedFile (step backend_default_session 0 CheckSession uploading_sales) = None"
proof -
  have a: "lastUploadedFile (step backend_ok 0 (FileSelect (Some sales_csv)) after_sales) =
             lastUploadedFile after_sales \<or>
           lastUploadedFile (step backend_ok 0 (FileSelect (Some sales_csv)) after_sales) = None"
    using stored_record_writers [of backend_ok 0 "FileSelect (Some sales_csv)" after_sales]
    by simp
  have h1: "fileUpload after_sales = Some (new_upload sales_csv Success) \<and>
            status (new_upload sales_csv Success) = Success" by code_simp
  have b: "lastUploadedFile (step backend_ok 0 PersistEffect after_sales) =
             Some \<lparr>ls_name = ''sales.csv'', ls_type = ''text/csv'', ls_lastModified = 1000,
                   ls_isExcel = None, ls_selectedSheet = None\<rparr>"
    using stored_record_writers [of backend_ok 0 PersistEffect after_sales
            "new_upload sales_csv Success"] h1
    by (simp add: new_upload_def sales_csv_def)
  have h2: "dd_name (datasetDescription sales_ready) = ''Sales'' \<and>
            dd_description (datasetDescription sales_ready) = ''Q1 sales'' \<and>
            fileInput sales_ready = Some [sales_csv] \<and>
            fileUpload sales_ready = Some (new_upload sales_csv Success) \<and>
            upload backend_ok = Inr \<lparr>up_status = 200, up_session_id = Some ''s2'',
                                     up_dataset_upload_id = Some 7\<rparr>" by code_simp
  have e: "\<not> endsWith ''Sales'' ''.csv'' \<and> \<not> endsWith (toLowerCase ''sales.csv'') ''.xlsx'' \<and>
           \<not> endsWith (toLowerCase ''sales.csv'') ''.xls''" by code_simp
  have c: "lastUploadedFile (step backend_ok 0 Commit sales_ready) =
             Some \<lparr>ls_name = ''Sales.csv'', ls_type = ''text/csv'', ls_lastModified = 1000,
                   ls_isExcel = Some False, ls_selectedSheet = None\<rparr>"
    using stored_record_writers [of backend_ok 0 Commit sales_ready _ sales_csv "[]"
            "\<lparr>up_status = 200, up_session_id = Some ''s2'', up_dataset_upload_id = Some 7\<rparr>"] h2 e
    by (simp add: new_upload_def sales_csv_def)
  have h3: "truthy (sessionId uploading_sales) \<and>
            get_session_info backend_default_session =
              Inr \<lparr>is_custom_dataset = False, dataset_name = None, dataset_description = None\<rparr> \<and>
            map_option status (fileUpload uploading_sales) \<noteq> Some Success" by code_simp
  have d: "lastUploadedFile (step backend_default_session 0 CheckSession uploading_sales) = None"
    using stored_record_writers [of backend_default_session 0 CheckSession uploading_sales _ _ _ _
            "\<lparr>is_custom_dataset = False, dataset_name = None, dataset_description = None\<rparr>"] h3
    by simp
  from a b c d show ?thesis by blast
qed

subsection \<open>Selecting a new file\<close>

text \<open>
  C6, as stated, fails: after \<open>sales.csv\<close> was previewed and described, selecting
  \<open>book.xlsx\<close> leaves the preview rows, the name and the description of \<open>sales.csv\<close>
  in the preview and the description, beside the file upload of \<open>book.xlsx\<close>.
\<close>

theorem file_select_counterexample:
  "filePreview (handleFileSelect (Some book_xlsx) backend_ok after_sales) =
     Some \<lparr>headers = [''a'', ''b''], rows = [[''1'', ''2'']], fp_name = ''sales'',
           fp_description = ''Q1 sales''\<rparr> \<and>
   datasetDescription (handleFileSelect (Some book_xlsx) backend_ok after_sales) =
     \<lparr>dd_name = ''Sales'', dd_description = ''Q1 sales''\<rparr> \<and>
   map_option (\<lambda>u. file_name (fu_file u))
     (fileUpload (handleFileSelect (Some book_xlsx) backend_ok after_sales)) = Some ''book.xlsx''"
  by code_simp

text \<open>
  C6, amended: selecting a file replaces the file upload as a whole. The file upload it
  produces is that of the new file and does not depend on the file upload, the preview,
  the description or the stored record of before; the stored record is removed unless the
  file is rejected as Unsupported. The preview and the description are not discarded at
  the selection: they stay as they were, except when the file takes the CSV flow and both
  its upload and its preview request succeed, and then they hold the values of the new
  file only (the name from the backend or else from the file, and the placeholder text).
\<close>

theorem file_select_replaces_file_upload:
  "fileUpload (handleFileSelect (Some f) b
       (s\<lparr>fileUpload := fu, filePreview := fp, datasetDescription := dd, lastUploadedFile := ls\<rparr>)) =
     fileUpload (handleFileSelect (Some f) b s) \<and>
   map_option fu_file (fileUpload (handleFileSelect (Some f) b s)) = Some f \<and>
   lastUploadedFile (handleFileSelect (Some f) b s) =
     (if classify f = Unsupported then lastUploadedFile s else None) \<and>
   filePreview (handleFileSelect (Some f) b s) =
     (if classify f = CSV \<and> (file_type f = ''text/csv'' \<or> endsWith (toLowerCase (file_name f)) ''.csv'') then
        (case upload b of
           Inl e \<Rightarrow> filePreview s
         | Inr up \<Rightarrow>
             (case preview_csv b of
                Inl e \<Rightarrow> filePreview s
              | Inr pv \<Rightarrow> Some \<lparr>headers = pv_headers pv, rows = pv_rows pv,
                                fp_name = or_else (pv_name pv) (remove_first ''.csv'' (file_name f)),
                                fp_description = placeholder\<rparr>))
      else filePreview s) \<and>
   datasetDescription (handleFileSelect (Some f) b s) =
     (if classify f = CSV \<and> (file_type f = ''text/csv'' \<or> endsWith (toLowerCase (file_name f)) ''.csv'') then
        (case upload b of
           Inl e \<Rightarrow> datasetDescription s
         | Inr up \<Rightarrow>
             (case preview_csv b of
                Inl e \<Rightarrow> datasetDescription s
              | Inr pv \<Rightarrow> \<lparr>dd_name = or_else (pv_name pv) (remove_first ''.csv'' (file_name f)),
                           dd_description = placeholder\<rparr>))
      else datasetDescription s)"
proof (intro conjI)
  show "map_option fu_file (fileUpload (handleFileSelect (Some f) b s)) = Some f"
    unfolding handleFileSelect_def Let_def
    by (simp add: fileUpload_handleFilePreview update_fileUpload_def excel_catch_def excel_failed_def select_catch_def
      set_error_timeout_def setTimeout_def send_def Let_def new_upload_def with_error_def
      with_upload_id_def
      split: sum.splits option.splits list.splits)
qed (simp_all only: fileUpload_handleFileSelect_frame filePreview_handleFileSelect
      datasetDescription_handleFileSelect stored_handleFileSelect option.case)

theorem file_select_replaces_file_upload_witness:
  "map_option fu_file (fileUpload (handleFileSelect (Some book_xlsx) backend_ok after_sales)) =
     Some book_xlsx \<and>
   lastUploadedFile (handleFileSelect (Some book_xlsx) backend_ok after_sales) = None \<and>
   filePreview (handleFileSelect (Some book_xlsx) backend_ok after_sales) = filePreview after_sales \<and>
   filePreview (handleFileSelect (Some sales_csv) backend_ok after_sales) =
     Some \<lparr>headers = [''a'', ''b''], rows = [[''1'', ''2'']], fp_name = ''sales'',
           fp_description = placeholder\<rparr>"
proof -
  have k1: "classify book_xlsx = Excel" by code_simp
  have k2: "classify sales_csv = CSV \<and> file_type sales_csv = ''text/csv''" by code_simp
  have k3: "upload backend_ok = Inr \<lparr>up_status = 200, up_session_id = Some ''s2'',
                                     up_dataset_upload_id = Some 7\<rparr> \<and>
            preview_csv backend_ok = Inr \<lparr>pv_headers = [''a'', ''b''], pv_rows = [[''1'', ''2'']],
                                          pv_name = Some ''sales'', pv_description = None\<rparr>"
    by (simp add: backend_ok_def)
  have a: "map_option fu_file (fileUpload (handleFileSelect (Some book_xlsx) backend_ok after_sales)) =
             Some book_xlsx \<and>
           lastUploadedFile (handleFileSelect (Some book_xlsx) backend_ok after_sales) = None \<and>
           filePreview (handleFileSelect (Some book_xlsx) backend_ok after_sales) = filePreview after_sales"
    using file_select_replaces_file_upload [where f = book_xlsx and b = backend_ok and s = after_sales] k1 by simp
  have b: "filePreview (handleFileSelect (Some sales_csv) backend_ok after_sales) =
             Some \<lparr>headers = [''a'', ''b''], rows = [[''1'', ''2'']], fp_name = ''sales'',
                   fp_description = placeholder\<rparr>"
    using file_select_replaces_file_upload [where f = sales_csv and b = backend_ok and s = after_sales] k2 k3
    by (simp add: or_else_def)
  from a b show ?thesis by blast
qed

subsection \<open>Mismatch found by the reconciliation\<close>
















subsection \<open>A rejected upload of a CSV file\<close>

lemma rejected_upload_state:
  "handleFileSelect (Some sales_csv) backend_down init =
     init\<lparr>fileUpload := Some ((new_upload sales_csv Success)
              \<lparr>errorMessage := Some ''File too large. Please upload a smaller file.'',
               isExcel := Some False\<rparr>),
          fileInput := Some [sales_csv],
          errorNotification := Some (''File preview failed'', ''File too large. Please upload a smaller file.''),
          errorTimeoutRef := Some 2,
          timers := [(1, 5000, ClearNotification), (2, 5000, ClearNotification)],
          timer_seq := 3,
          net := [UploadDataframe sales_csv ''sales'' placeholder None],
          console := [''Upload error details:'', ''Failed to preview file:'']\<rparr>"
  by code_simp

text \<open>
  C2 at a rejected upload: \<open>sales.csv\<close> is selected and the backend answers the upload
  with status 413. handleFilePreview sets status Error with the message, but swallows the
  error it rethrows, so handleFileSelect goes on and sets status Success. The two timers
  left pending only dismiss the notification: after both went off the file upload is still
  there with status Success, and the storing effect has written its record.
\<close>

theorem rejected_upload_not_cleared:
  "upload backend_down = Inl too_large \<and>
   map_option status (fileUpload (handleFileSelect (Some sales_csv) backend_down init)) = Some Success \<and>
   Option.bind (fileUpload (handleFileSelect (Some sales_csv) backend_down init)) errorMessage =
     Some ''File too large. Please upload a smaller file.'' \<and>
   timers (handleFileSelect (Some sales_csv) backend_down init) =
     [(1, 5000, ClearNotification), (2, 5000, ClearNotification)] \<and>
   map_option status (fileUpload (fire 2 backend_down (fire 1 backend_down
      (handleFileSelect (Some sales_csv) backend_down init)))) = Some Success \<and>
   lastUploadedFile (fire 2 backend_down (fire 1 backend_down
      (persist_effect (handleFileSelect (Some sales_csv) backend_down init)))) \<noteq> None"
  unfolding rejected_upload_state
  by (simp add: backend_down_def new_upload_def fire_def run_timer_def persist_effect_def init_def
      Let_def)

end
